theory Spec2Isabelle
  imports Complex_Main "HOL-Library.Char_ord" "HOL-Library.List_Lexorder"
    "HOL-Library.Product_Lexorder" "HOL-Library.Multiset"
begin

section \<open>Python and numpy conventions\<close>

text \<open>
  The analytics pipeline of the repository (\<^verbatim>\<open>services/data_repository.py\<close>,
  \<^verbatim>\<open>services/analytics_service.py\<close>, \<^verbatim>\<open>services/anomaly_engine.py\<close>,
  \<^verbatim>\<open>services/forecast_engine.py\<close>) is embedded function by function.

  Conventions of the embedding:
  \<^item> Python \<^verbatim>\<open>int\<close> is \<open>int\<close>; a finite Python or numpy float is a \<open>real\<close> (the
    arithmetic is exact: binary rounding of float64 is not modelled);
  \<^item> where numpy can produce a non-finite float (a division by zero gives \<^verbatim>\<open>inf\<close> or
    \<^verbatim>\<open>nan\<close> with a warning, not an exception) the value is an \<open>npfloat\<close>;
  \<^item> a raised exception is \<open>Inl e\<close> of the result type \<open>py_error + 'a\<close>;
  \<^item> \<^verbatim>\<open>datetime.now()\<close> is read from a clock \<open>nat \<Rightarrow> datetime\<close>: reading number \<open>k\<close>
    of an operation returns \<open>clock k\<close>;
  \<^item> a draw of \<^verbatim>\<open>np.random\<close> is a parameter of the function that makes it.
\<close>

datatype py_error = ZeroDivisionError | ValueError | KeyError | IndexError

datatype npfloat = Fin real | PosInf | NegInf | NaN

text \<open>\<^verbatim>\<open>int(x)\<close> of a finite float truncates toward zero.\<close>

definition py_int :: "real \<Rightarrow> int" where
  "py_int x = (if 0 \<le> x then \<lfloor>x\<rfloor> else \<lceil>x\<rceil>)"

text \<open>\<^verbatim>\<open>round(x, n)\<close> rounds to \<open>n\<close> decimals, a tie going to the even neighbour.\<close>

definition round_half_even :: "real \<Rightarrow> int" where
  "round_half_even x =
     (let f = \<lfloor>x\<rfloor>; d = x - of_int f
      in if d < 1 / 2 then f else if 1 / 2 < d then f + 1
         else if even f then f else f + 1)"

definition py_round :: "nat \<Rightarrow> real \<Rightarrow> real" where
  "py_round n x = of_int (round_half_even (x * 10 ^ n)) / 10 ^ n"

fun np_round :: "nat \<Rightarrow> npfloat \<Rightarrow> npfloat" where
  "np_round n (Fin x) = Fin (py_round n x)"
| "np_round n PosInf = PosInf"
| "np_round n NegInf = NegInf"
| "np_round n NaN = NaN"

text \<open>Division of numpy scalars: a zero divisor yields \<^verbatim>\<open>nan\<close> or a signed \<^verbatim>\<open>inf\<close>.\<close>

definition np_true_divide :: "real \<Rightarrow> real \<Rightarrow> npfloat" where
  "np_true_divide a b =
     (if b \<noteq> 0 then Fin (a / b)
      else if a = 0 then NaN else if 0 < a then PosInf else NegInf)"

text \<open>Multiplication of a numpy float by a positive finite constant.\<close>

fun np_scale :: "npfloat \<Rightarrow> real \<Rightarrow> npfloat" where
  "np_scale (Fin x) c = Fin (x * c)"
| "np_scale PosInf c = PosInf"
| "np_scale NegInf c = NegInf"
| "np_scale NaN c = NaN"

text \<open>\<^verbatim>\<open>x > c\<close>: every comparison with \<^verbatim>\<open>nan\<close> is false.\<close>

fun np_greater :: "npfloat \<Rightarrow> real \<Rightarrow> bool" where
  "np_greater (Fin x) c = (c < x)"
| "np_greater PosInf c = True"
| "np_greater NegInf c = False"
| "np_greater NaN c = False"

fun np_abs :: "npfloat \<Rightarrow> npfloat" where
  "np_abs (Fin x) = Fin \<bar>x\<bar>"
| "np_abs PosInf = PosInf"
| "np_abs NegInf = PosInf"
| "np_abs NaN = NaN"

text \<open>\<^verbatim>\<open>np.mean\<close> and \<^verbatim>\<open>np.std\<close> (population standard deviation) of a non-empty array.
  On the empty array numpy returns \<^verbatim>\<open>nan\<close>; every caller below that can pass the empty
  array says what happens there.\<close>

definition np_mean :: "real list \<Rightarrow> real" where
  "np_mean xs = sum_list xs / real (length xs)"

definition np_var :: "real list \<Rightarrow> real" where
  "np_var xs = np_mean (map (\<lambda>x. (x - np_mean xs)\<^sup>2) xs)"

definition np_std :: "real list \<Rightarrow> real" where
  "np_std xs = sqrt (np_var xs)"

text \<open>\<^verbatim>\<open>df.tail(n)\<close> and \<^verbatim>\<open>df.head(n)\<close>, \<^verbatim>\<open>xs[-n:]\<close> for \<open>n > 0\<close>.\<close>

definition tail :: "nat \<Rightarrow> 'a list \<Rightarrow> 'a list" where
  "tail n xs = drop (length xs - n) xs"


section \<open>Dates and their formats\<close>

text \<open>Decimal digits, zero padding.\<close>

definition digit_char :: "nat \<Rightarrow> char" where
  "digit_char d = ''0123456789'' ! (d mod 10)"

fun dec_str :: "nat \<Rightarrow> string" where
  "dec_str n = (if n < 10 then [digit_char n] else dec_str (n div 10) @ [digit_char (n mod 10)])"

declare dec_str.simps [simp del]

definition zpad :: "nat \<Rightarrow> nat \<Rightarrow> string" where
  "zpad w n = replicate (w - length (dec_str n)) (CHR ''0'') @ dec_str n"

definition month_abbr :: "nat \<Rightarrow> string" where
  "month_abbr m =
     [''Jan'', ''Feb'', ''Mar'', ''Apr'', ''May'', ''Jun'',
      ''Jul'', ''Aug'', ''Sep'', ''Oct'', ''Nov'', ''Dec''] ! (m - 1)"

text \<open>
  A \<^verbatim>\<open>datetime\<close> is its proleptic Gregorian ordinal (day 1 is 0001-01-01) and its time of
  day. The calendar date is recovered as \<^verbatim>\<open>datetime.fromordinal\<close> does.
\<close>

record datetime =
  dt_ordinal :: nat
  dt_hour :: nat
  dt_minute :: nat
  dt_second :: nat
  dt_microsecond :: nat

definition days_before_month :: "nat \<Rightarrow> nat" where
  "days_before_month m = [0, 0, 31, 59, 90, 120, 151, 181, 212, 243, 273, 304, 334] ! m"

definition days_in_month :: "nat \<Rightarrow> nat" where
  "days_in_month m = [0, 31, 28, 31, 30, 31, 30, 31, 31, 30, 31, 30, 31] ! m"

definition ord2ymd :: "nat \<Rightarrow> nat \<times> nat \<times> nat" where
  "ord2ymd ordinal =
     (let n0 = ordinal - 1;
          n400 = n0 div 146097; n1 = n0 mod 146097;
          n100 = n1 div 36524; n2 = n1 mod 36524;
          n4 = n2 div 1461; n3 = n2 mod 1461;
          ny = n3 div 365; n = n3 mod 365;
          y = n400 * 400 + 1 + n100 * 100 + n4 * 4 + ny
      in if ny = 4 \<or> n100 = 4 then (y - 1, 12, 31)
         else
           (let leapyear = (ny = 3 \<and> (n4 \<noteq> 24 \<or> n100 = 3));
                m0 = (n + 50) div 32;
                preceding0 = days_before_month m0 + (if 2 < m0 \<and> leapyear then 1 else 0);
                m = (if n < preceding0 then m0 - 1 else m0);
                preceding =
                  (if n < preceding0
                   then preceding0 - (days_in_month m + (if m = 2 \<and> leapyear then 1 else 0))
                   else preceding0)
            in (y, m, n - preceding + 1)))"

definition dt_year :: "datetime \<Rightarrow> nat" where
  "dt_year d = fst (ord2ymd (dt_ordinal d))"

definition dt_month :: "datetime \<Rightarrow> nat" where
  "dt_month d = fst (snd (ord2ymd (dt_ordinal d)))"

definition dt_day :: "datetime \<Rightarrow> nat" where
  "dt_day d = snd (snd (ord2ymd (dt_ordinal d)))"


text \<open>\<^verbatim>\<open>strftime\<close> with the formats the code uses (C locale; years of four digits).\<close>

definition strftime_Y :: "datetime \<Rightarrow> string" where
  "strftime_Y d = zpad 4 (dt_year d)"




text \<open>\<^verbatim>\<open>isoformat()\<close>: the microseconds are printed only when they are not zero.\<close>

definition isoformat :: "datetime \<Rightarrow> string" where
  "isoformat d =
     zpad 4 (dt_year d) @ ''-'' @ zpad 2 (dt_month d) @ ''-'' @ zpad 2 (dt_day d) @ ''T'' @
     zpad 2 (dt_hour d) @ '':'' @ zpad 2 (dt_minute d) @ '':'' @ zpad 2 (dt_second d) @
     (if dt_microsecond d = 0 then [] else ''.'' @ zpad 6 (dt_microsecond d))"

text \<open>
  The \<^verbatim>\<open>month\<close> column of the data frames holds month-start timestamps; one is the pair
  (year, month), ordered as dates are.
\<close>

type_synonym month_stamp = "nat \<times> nat"

definition stamp_Y_m :: "month_stamp \<Rightarrow> string" where
  "stamp_Y_m t = zpad 4 (fst t) @ ''-'' @ zpad 2 (snd t)"

definition stamp_b_Y :: "month_stamp \<Rightarrow> string" where
  "stamp_b_Y t = month_abbr (snd t) @ '' '' @ zpad 4 (fst t)"

text \<open>
  \<^verbatim>\<open>datetime.strptime(s, "%Y-%m").month\<close>: four digits of a year that is not zero, a dash
  and a month written \<^verbatim>\<open>1\<close> to \<^verbatim>\<open>9\<close>, \<^verbatim>\<open>01\<close> to \<^verbatim>\<open>09\<close> or \<^verbatim>\<open>10\<close> to \<^verbatim>\<open>12\<close>; anything
  else raises \<^verbatim>\<open>ValueError\<close>.
\<close>

definition is_digit :: "char \<Rightarrow> bool" where
  "is_digit c = (c \<in> set ''0123456789'')"

definition digit_val :: "char \<Rightarrow> nat" where
  "digit_val c = of_char c - 48"

definition strptime_Y_m_month :: "string \<Rightarrow> py_error + nat" where
  "strptime_Y_m_month s =
     (if 6 \<le> length s \<and> length s \<le> 7 \<and> list_all is_digit (take 4 s) \<and>
         take 4 s \<noteq> ''0000'' \<and> s ! 4 = CHR ''-'' \<and> list_all is_digit (drop 5 s)
      then
        (let m = (if length s = 6 then digit_val (s ! 5)
                  else 10 * digit_val (s ! 5) + digit_val (s ! 6))
         in if 1 \<le> m \<and> m \<le> 12 then Inr m else Inl ValueError)
      else Inl ValueError)"

section \<open>The data repository\<close>

text \<open>
  The state of \<^verbatim>\<open>AadhaarDataRepository\<close> that the analytics read: the enrolment frame, the
  update frame, the demographics dictionary and the state frame, each \<open>None\<close> while the
  attribute is \<^verbatim>\<open>None\<close>. Columns no modelled function reads are left out.
\<close>

record enrol_row =
  er_month :: month_stamp
  enrolments :: int
  cumulative :: int
  yoy_growth :: npfloat

record update_row =
  ur_month :: month_stamp
  update_type :: string
  ur_count :: int

record state_row =
  st_name :: string
  st_code :: string
  st_region :: string
  total_enrolments :: int
  monthly_enrolments :: int
  st_yoy_growth :: real
  update_rate :: real
  urban_pct :: real

record bucket =
  b_enrolments :: int
  b_pct :: real

type_synonym demographics = "(string \<times> (string \<times> bucket) list) list"

record repository =
  enrolment_data :: "enrol_row list option"
  update_data :: "update_row list option"
  demographics_data :: "demographics option"
  state_data :: "state_row list option"

text \<open>An element of a returned time series: the update series has no \<^verbatim>\<open>cumulative\<close> and
  no \<^verbatim>\<open>yoy_growth\<close> key.\<close>

record time_point =
  tp_period :: string
  tp_month_name :: string
  tp_val :: int
  tp_cumulative :: "int option"
  tp_yoy_growth :: "npfloat option"

definition get_enrolment_timeseries :: "repository \<Rightarrow> nat \<Rightarrow> time_point list" where
  "get_enrolment_timeseries repo months =
     (case enrolment_data repo of
        None \<Rightarrow> []
      | Some df \<Rightarrow>
          map (\<lambda>row. \<lparr>tp_period = stamp_Y_m (er_month row),
                       tp_month_name = stamp_b_Y (er_month row),
                       tp_val = enrolments row,
                       tp_cumulative = Some (cumulative row),
                       tp_yoy_growth = Some (np_round 2 (yoy_growth row))\<rparr>)
            (tail months df))"

text \<open>\<^verbatim>\<open>groupby("month")["count"].sum().reset_index()\<close>: one row per month, in ascending
  order of the month, holding the sum of the month's counts.\<close>

definition monthly_totals :: "update_row list \<Rightarrow> (month_stamp \<times> int) list" where
  "monthly_totals df =
     map (\<lambda>m. (m, sum_list (map ur_count (filter (\<lambda>r. ur_month r = m) df))))
       (sorted_list_of_set (set (map ur_month df)))"

definition get_update_timeseries :: "repository \<Rightarrow> nat \<Rightarrow> time_point list" where
  "get_update_timeseries repo months =
     (case update_data repo of
        None \<Rightarrow> []
      | Some df \<Rightarrow>
          map (\<lambda>(m, c). \<lparr>tp_period = stamp_Y_m m,
                          tp_month_name = stamp_b_Y m,
                          tp_val = c,
                          tp_cumulative = None,
                          tp_yoy_growth = None\<rparr>)
            (tail months (monthly_totals df)))"

section \<open>The forecast engine\<close>




























section \<open>Repository accessors read by the detectors and the aggregator\<close>

record update_type_entry =
  ut_type :: string
  ut_count :: int
  percentage :: npfloat

text \<open>
  \<^verbatim>\<open>get_update_types\<close>: the rows of the latest month with their share of the month's total.
  The share is a numpy division: a total of zero gives \<^verbatim>\<open>nan\<close> or \<^verbatim>\<open>inf\<close>, not an exception.
\<close>

definition get_update_types :: "repository \<Rightarrow> update_type_entry list" where
  "get_update_types repo =
     (case update_data repo of
        None \<Rightarrow> []
      | Some df \<Rightarrow>
          (if df = [] then []
           else
             (let latest_month = Max (set (map ur_month df));
                  rows = filter (\<lambda>r. ur_month r = latest_month) df;
                  total = sum_list (map ur_count rows)
              in map (\<lambda>row.
                       \<lparr>ut_type = update_type row,
                        ut_count = ur_count row,
                        percentage =
                          np_round 1 (np_scale (np_true_divide (real_of_int (ur_count row))
                                                  (real_of_int total)) 100)\<rparr>)
                   rows)))"

text \<open>
  \<^verbatim>\<open>get_state_data\<close>: the states by descending \<^verbatim>\<open>total_enrolments\<close>. States with equal
  totals keep the order of the frame (pandas' default sort promises no order for them).
\<close>

definition get_state_data :: "repository \<Rightarrow> state_row list" where
  "get_state_data repo =
     (case state_data repo of
        None \<Rightarrow> []
      | Some df \<Rightarrow> sort_key (\<lambda>s. - total_enrolments s) df)"

definition get_demographics :: "repository \<Rightarrow> demographics" where
  "get_demographics repo = (case demographics_data repo of None \<Rightarrow> [] | Some d \<Rightarrow> d)"

text \<open>\<^verbatim>\<open>d[k]\<close> on a dictionary kept as an association list.\<close>

definition dict_get :: "('k \<times> 'v) list \<Rightarrow> 'k \<Rightarrow> py_error + 'v" where
  "dict_get d k = (case map_of d k of None \<Rightarrow> Inl KeyError | Some v \<Rightarrow> Inr v)"

section \<open>Formatting of floats\<close>

text \<open>\<^verbatim>\<open>f"{x:.nf}"\<close> for \<open>n \<ge> 1\<close>: sign, integer part, point and \<open>n\<close> decimals of the value
  rounded half to even.\<close>

definition format_fixed :: "nat \<Rightarrow> real \<Rightarrow> string" where
  "format_fixed n x =
     (let r = nat (round_half_even (\<bar>x\<bar> * 10 ^ n))
      in (if x < 0 then ''-'' else []) @ dec_str (r div 10 ^ n) @ ''.'' @ zpad n (r mod 10 ^ n))"

fun format_np :: "nat \<Rightarrow> npfloat \<Rightarrow> string" where
  "format_np n (Fin x) = format_fixed n x"
| "format_np n PosInf = ''inf''"
| "format_np n NegInf = ''-inf''"
| "format_np n NaN = ''nan''"

section \<open>The anomaly detection engine\<close>

datatype AnomalyType =
  ENROLMENT_SURGE | ENROLMENT_DROP | UPDATE_FATIGUE | DEMOGRAPHIC_IMBALANCE |
  GEOGRAPHIC_DISPARITY | SEASONAL_ANOMALY

fun type_value :: "AnomalyType \<Rightarrow> string" where
  "type_value ENROLMENT_SURGE = ''Enrolment Surge''"
| "type_value ENROLMENT_DROP = ''Enrolment Drop''"
| "type_value UPDATE_FATIGUE = ''Update Fatigue''"
| "type_value DEMOGRAPHIC_IMBALANCE = ''Demographic Imbalance''"
| "type_value GEOGRAPHIC_DISPARITY = ''Geographic Disparity''"
| "type_value SEASONAL_ANOMALY = ''Seasonal Anomaly''"

datatype ev_value = EvInt int | EvFloat npfloat | EvStr string

text \<open>The dictionary of one anomaly. Only the series detector sets \<^verbatim>\<open>period\<close>.\<close>

record anomaly =
  a_id :: string
  a_type :: string
  severity :: string
  a_state :: string
  district :: string
  description :: string
  deviation_score :: npfloat
  detected_at :: string
  a_period :: "string option"
  recommendation :: string
  evidence :: "(string \<times> ev_value) list"

text \<open>
  The mutable state of a detection run: the engine's \<^verbatim>\<open>_anomaly_counter\<close> and the number of
  readings of the clock made so far. An operation returns its result (or the exception
  raised) together with the state it leaves.
\<close>

record engine_state =
  anomaly_counter :: nat
  clock_reads :: nat

definition now_reading :: "(nat \<Rightarrow> datetime) \<Rightarrow> engine_state \<Rightarrow> datetime \<times> engine_state" where
  "now_reading clock st = (clock (clock_reads st), st\<lparr>clock_reads := clock_reads st + 1\<rparr>)"

definition generate_anomaly_id ::
  "(nat \<Rightarrow> datetime) \<Rightarrow> engine_state \<Rightarrow> string \<times> engine_state" where
  "generate_anomaly_id clock st =
     (let st1 = st\<lparr>anomaly_counter := anomaly_counter st + 1\<rparr>;
          (now, st2) = now_reading clock st1
      in (''ANM-'' @ strftime_Y now @ ''-'' @ zpad 3 (anomaly_counter st2), st2))"

text \<open>The two readings every anomaly makes, in the order of its dictionary literal: the
  identifier first, \<^verbatim>\<open>detected_at\<close> after it.\<close>

definition stamp_anomaly ::
  "(nat \<Rightarrow> datetime) \<Rightarrow> engine_state \<Rightarrow> (string \<times> string) \<times> engine_state" where
  "stamp_anomaly clock st =
     (let (aid, st1) = generate_anomaly_id clock st;
          (now, st2) = now_reading clock st1
      in ((aid, isoformat now), st2))"

subsection \<open>Detector 1: z-scores of the enrolment series\<close>

text \<open>\<^verbatim>\<open>scipy.stats.zscore\<close>: a constant series has standard deviation zero and every score
  is \<^verbatim>\<open>nan\<close>.\<close>

definition zscore :: "real list \<Rightarrow> npfloat list" where
  "zscore vals = map (\<lambda>v. np_true_divide (v - np_mean vals) (np_std vals)) vals"

definition enrolment_anomaly ::
  "string \<times> string \<Rightarrow> state_row \<Rightarrow> time_point \<Rightarrow> npfloat \<Rightarrow> real list \<Rightarrow> anomaly" where
  "enrolment_anomaly stamp affected_state ts z vals =
     (let is_surge = np_greater z 0
      in \<lparr>a_id = fst stamp,
          a_type = (if is_surge then type_value ENROLMENT_SURGE else type_value ENROLMENT_DROP),
          severity = (if np_greater (np_abs z) 3 then ''high'' else ''medium''),
          a_state = st_name affected_state,
          district = st_name affected_state @ '' Metro'',
          description =
            (if is_surge
             then ''Enrolment volume '' @ format_np 1 (np_abs z) @ ''x higher than expected''
             else ''Enrolment volume '' @ format_np 1 (np_abs z) @ ''x below monthly average''),
          deviation_score = np_round 2 z,
          detected_at = snd stamp,
          a_period = Some (tp_period ts),
          recommendation =
            (if is_surge then ''Verify with ground team and check centre capacity''
             else ''Check centre operational status''),
          evidence =
            [(''expected_value'', EvInt (py_int (np_mean vals))),
             (''actual_value'', EvInt (tp_val ts)),
             (''z_score'', EvFloat (np_round 2 z))]\<rparr>)"

fun enrolment_loop ::
  "real \<Rightarrow> (nat \<Rightarrow> datetime) \<Rightarrow> repository \<Rightarrow> real list \<Rightarrow> (nat \<times> time_point \<times> npfloat) list \<Rightarrow>
   engine_state \<Rightarrow> (py_error + anomaly list) \<times> engine_state" where
  "enrolment_loop threshold clock repo vals [] st = (Inr [], st)"
| "enrolment_loop threshold clock repo vals ((i, ts, z) # rest) st =
     (if np_greater (np_abs z) threshold
      then
        (let states = get_state_data repo
         in if states = [] then (Inl ZeroDivisionError, st)
            else
              (let affected_state = states ! (i mod length states);
                   (stamp, st1) = stamp_anomaly clock st;
                   a = enrolment_anomaly stamp affected_state ts z vals
               in case enrolment_loop threshold clock repo vals rest st1 of
                    (Inl e, st2) \<Rightarrow> (Inl e, st2)
                  | (Inr anomalies, st2) \<Rightarrow> (Inr (a # anomalies), st2)))
      else enrolment_loop threshold clock repo vals rest st)"

definition detect_enrolment_anomalies ::
  "real \<Rightarrow> (nat \<Rightarrow> datetime) \<Rightarrow> repository \<Rightarrow> engine_state \<Rightarrow>
   (py_error + anomaly list) \<times> engine_state" where
  "detect_enrolment_anomalies threshold clock repo st =
     (let timeseries = get_enrolment_timeseries repo 24
      in if length timeseries < 12 then (Inr [], st)
         else
           (let vals = map (\<lambda>t. real_of_int (tp_val t)) timeseries;
                z_scores = zscore vals
            in case enrolment_loop threshold clock repo vals
                      (zip [0..<length timeseries] (zip timeseries z_scores)) st of
                 (Inl e, st1) \<Rightarrow> (Inl e, st1)
               | (Inr anomalies, st1) \<Rightarrow> (Inr (take 3 anomalies), st1)))"

subsection \<open>Detector 2: update types and update rates\<close>

definition address_anomaly :: "string \<times> string \<Rightarrow> update_type_entry \<Rightarrow> anomaly" where
  "address_anomaly stamp ut =
     \<lparr>a_id = fst stamp,
      a_type = type_value UPDATE_FATIGUE,
      severity = ''medium'',
      a_state = ''Multiple States'',
      district = ''Metro Areas'',
      description =
        ''Address updates at '' @ format_np 1 (percentage ut) @
        ''%, suggesting high migration activity'',
      deviation_score =
        np_round 2 (case percentage ut of Fin p \<Rightarrow> Fin ((p - 38) / 5) | other \<Rightarrow> other),
      detected_at = snd stamp,
      a_period = None,
      recommendation = ''Deploy additional mobile update units in affected areas'',
      evidence =
        [(''update_type'', EvStr (ut_type ut)),
         (''percentage'', EvFloat (percentage ut)),
         (''expected_range'', EvStr ''35-40%'')]\<rparr>"

definition update_rate_anomaly :: "string \<times> string \<Rightarrow> state_row \<Rightarrow> anomaly" where
  "update_rate_anomaly stamp state =
     \<lparr>a_id = fst stamp,
      a_type = type_value UPDATE_FATIGUE,
      severity = ''low'',
      a_state = st_name state,
      district = st_name state @ '' Urban'',
      description =
        ''Update requests '' @ format_fixed 1 (update_rate state * 100) @
        ''% above monthly average'',
      deviation_score = Fin (py_round 2 (update_rate state * 10)),
      detected_at = snd stamp,
      a_period = None,
      recommendation = ''Monitor centre capacity and queue times'',
      evidence =
        [(''update_rate'', EvFloat (Fin (py_round 3 (update_rate state)))),
         (''state_code'', EvStr (st_code state))]\<rparr>"

text \<open>A loop that appends one stamped anomaly for every element that meets a condition.\<close>

fun flag_loop ::
  "(nat \<Rightarrow> datetime) \<Rightarrow> ('a \<Rightarrow> bool) \<Rightarrow> (string \<times> string \<Rightarrow> 'a \<Rightarrow> anomaly) \<Rightarrow> 'a list \<Rightarrow>
   engine_state \<Rightarrow> anomaly list \<times> engine_state" where
  "flag_loop clock cond mk [] st = ([], st)"
| "flag_loop clock cond mk (x # xs) st =
     (if cond x
      then
        (let (stamp, st1) = stamp_anomaly clock st;
             (anomalies, st2) = flag_loop clock cond mk xs st1
         in (mk stamp x # anomalies, st2))
      else flag_loop clock cond mk xs st)"

definition detect_update_anomalies ::
  "(nat \<Rightarrow> datetime) \<Rightarrow> repository \<Rightarrow> engine_state \<Rightarrow> anomaly list \<times> engine_state" where
  "detect_update_anomalies clock repo st =
     (let update_types = get_update_types repo;
          states = get_state_data repo;
          (by_type, st1) =
            flag_loop clock (\<lambda>ut. ut_type ut = ''Address'' \<and> np_greater (percentage ut) 45)
              address_anomaly update_types st;
          (by_state, st2) =
            flag_loop clock (\<lambda>state. 0.10 < update_rate state) update_rate_anomaly
              (take 5 states) st1
      in (take 2 (by_type @ by_state), st2))"

subsection \<open>Detector 3: geographic disparity\<close>

definition urban_z :: "state_row list \<Rightarrow> state_row \<Rightarrow> real" where
  "urban_z states state =
     (let urban_pcts = map urban_pct states;
          mean_urban = np_mean urban_pcts;
          std_urban = np_std urban_pcts
      in if 0 < std_urban then (urban_pct state - mean_urban) / std_urban else 0)"

definition geographic_anomaly :: "state_row list \<Rightarrow> string \<times> string \<Rightarrow> state_row \<Rightarrow> anomaly" where
  "geographic_anomaly states stamp state =
     (let z = urban_z states state;
          mean_urban = np_mean (map urban_pct states)
      in \<lparr>a_id = fst stamp,
          a_type = type_value GEOGRAPHIC_DISPARITY,
          severity = (if 2.5 < \<bar>z\<bar> then ''medium'' else ''low''),
          a_state = st_name state,
          district = st_name state,
          description =
            ''Urban-rural enrolment ratio significantly '' @
            (if 0 < z then ''above'' else ''below'') @ '' national average'',
          deviation_score = Fin (py_round 2 z),
          detected_at = snd stamp,
          a_period = None,
          recommendation =
            ''Focus on '' @ (if 0 < z then ''rural'' else ''urban'') @ '' outreach in '' @
            st_name state,
          evidence =
            [(''state_urban_pct'', EvFloat (Fin (py_round 1 (urban_pct state * 100)))),
             (''national_avg'', EvFloat (Fin (py_round 1 (mean_urban * 100))))]\<rparr>)"

text \<open>With no state at all the mean is \<^verbatim>\<open>nan\<close>, but the loop has nothing to run on.\<close>

definition detect_geographic_anomalies ::
  "(nat \<Rightarrow> datetime) \<Rightarrow> repository \<Rightarrow> engine_state \<Rightarrow> anomaly list \<times> engine_state" where
  "detect_geographic_anomalies clock repo st =
     (let states = get_state_data repo;
          (anomalies, st1) =
            flag_loop clock (\<lambda>state. 2 < \<bar>urban_z states state\<bar>) (geographic_anomaly states)
              states st
      in (take 2 anomalies, st1))"

subsection \<open>Detector 4: demographic imbalance\<close>

definition demographic_anomaly :: "string \<times> string \<Rightarrow> real \<Rightarrow> real \<Rightarrow> anomaly" where
  "demographic_anomaly stamp male_pct female_pct =
     \<lparr>a_id = fst stamp,
      a_type = type_value DEMOGRAPHIC_IMBALANCE,
      severity = ''low'',
      a_state = ''National'',
      district = ''All Districts'',
      description =
        ''Gender ratio at '' @ format_fixed 1 male_pct @ ''% male, deviating from expected 51%'',
      deviation_score = Fin (py_round 2 (\<bar>male_pct - 51\<bar> / 2)),
      detected_at = snd stamp,
      a_period = None,
      recommendation = ''Review gender-wise enrolment campaigns'',
      evidence =
        [(''male_percentage'', EvFloat (Fin male_pct)),
         (''female_percentage'', EvFloat (Fin female_pct)),
         (''expected_ratio'', EvStr ''51:49'')]\<rparr>"

definition gender_pct :: "demographics \<Rightarrow> string \<Rightarrow> py_error + real" where
  "gender_pct demographics label =
     (case dict_get demographics ''gender'' of
        Inl e \<Rightarrow> Inl e
      | Inr gender \<Rightarrow>
          (case dict_get gender label of Inl e \<Rightarrow> Inl e | Inr b \<Rightarrow> Inr (b_pct b)))"

definition detect_demographic_anomalies ::
  "(nat \<Rightarrow> datetime) \<Rightarrow> repository \<Rightarrow> engine_state \<Rightarrow>
   (py_error + anomaly list) \<times> engine_state" where
  "detect_demographic_anomalies clock repo st =
     (let demographics = get_demographics repo
      in case gender_pct demographics ''Male'' of
           Inl e \<Rightarrow> (Inl e, st)
         | Inr male_pct \<Rightarrow>
             (case gender_pct demographics ''Female'' of
                Inl e \<Rightarrow> (Inl e, st)
              | Inr female_pct \<Rightarrow>
                  (if 2 < \<bar>male_pct - 51\<bar>
                   then (let (stamp, st1) = stamp_anomaly clock st
                         in (Inr [demographic_anomaly stamp male_pct female_pct], st1))
                   else (Inr [], st))))"

subsection \<open>Merge and rank\<close>

definition severity_order :: "string \<Rightarrow> nat" where
  "severity_order s =
     (if s = ''critical'' then 0 else if s = ''high'' then 1
      else if s = ''medium'' then 2 else if s = ''low'' then 3 else 4)"


definition anomaly_key :: "anomaly \<Rightarrow> nat \<times> string" where
  "anomaly_key x = (severity_order (severity x), detected_at x)"

text \<open>\<^verbatim>\<open>list.sort(key=...)\<close> is a stable sort, as \<open>sort_key\<close> is.\<close>

definition detect_all_anomalies ::
  "real \<Rightarrow> (nat \<Rightarrow> datetime) \<Rightarrow> repository \<Rightarrow> engine_state \<Rightarrow>
   (py_error + anomaly list) \<times> engine_state" where
  "detect_all_anomalies threshold clock repo st =
     (case detect_enrolment_anomalies threshold clock repo st of
        (Inl e, st1) \<Rightarrow> (Inl e, st1)
      | (Inr a1, st1) \<Rightarrow>
          (case detect_update_anomalies clock repo st1 of
             (a2, st2) \<Rightarrow>
               (case detect_geographic_anomalies clock repo st2 of
                  (a3, st3) \<Rightarrow>
                    (case detect_demographic_anomalies clock repo st3 of
                       (Inl e, st4) \<Rightarrow> (Inl e, st4)
                     | (Inr a4, st4) \<Rightarrow>
                         (Inr (sort_key anomaly_key (a1 @ a2 @ a3 @ a4)), st4)))))"

text \<open>The module's singleton: \<^verbatim>\<open>AnomalyDetectionEngine()\<close> with the default threshold.\<close>

definition default_zscore_threshold :: real where
  "default_zscore_threshold = 2.5"

text \<open>What a repository holds once it is initialised, as far as the detectors read it: at
  least one state, and the gender shares of the demographics.\<close>

definition detection_inputs_present :: "repository \<Rightarrow> bool" where
  "detection_inputs_present repo =
     (get_state_data repo \<noteq> [] \<and>
      (case gender_pct (get_demographics repo) ''Male'' of Inl e \<Rightarrow> False | Inr p \<Rightarrow> True) \<and>
      (case gender_pct (get_demographics repo) ''Female'' of Inl e \<Rightarrow> False | Inr p \<Rightarrow> True))"

section \<open>The analytics service\<close>

subsection \<open>Trends\<close>

text \<open>
  \<^verbatim>\<open>get_trends\<close> of the repository. The means are numpy floats, so a zero baseline makes
  the growth \<^verbatim>\<open>inf\<close> or \<^verbatim>\<open>nan\<close>; with an empty enrolment frame \<^verbatim>\<open>int(recent_12m / 30)\<close> is
  \<^verbatim>\<open>int(nan)\<close> and raises \<^verbatim>\<open>ValueError\<close>. With no enrolment frame the result is the empty
  dictionary (\<open>None\<close>). \<^verbatim>\<open>idxmax\<close> and \<^verbatim>\<open>idxmin\<close> take the first row that holds the extreme.
\<close>

record trends =
  enrolment_growth_yoy :: npfloat
  update_growth_yoy :: npfloat
  daily_average_enrolments :: int
  daily_average_updates :: int
  peak_month :: string
  lowest_month :: string

definition first_with :: "int \<Rightarrow> enrol_row list \<Rightarrow> month_stamp" where
  "first_with v df = er_month (hd (filter (\<lambda>r. enrolments r = v) df))"

definition get_trends :: "repository \<Rightarrow> py_error + trends option" where
  "get_trends repo =
     (case enrolment_data repo of
        None \<Rightarrow> Inr None
      | Some df0 \<Rightarrow>
          (let df = tail 24 df0
           in if df = [] then Inl ValueError
              else
                (let recent_12m = np_mean (map (\<lambda>r. real_of_int (enrolments r)) (tail 12 df));
                     prev_12m = np_mean (map (\<lambda>r. real_of_int (enrolments r)) (take 12 df));
                     update_df = (case update_data repo of None \<Rightarrow> [] | Some u \<Rightarrow> monthly_totals u);
                     measured = (update_data repo \<noteq> None \<and> 24 \<le> length update_df);
                     update_recent =
                       (if measured then np_mean (map (\<lambda>(m, c). real_of_int c) (tail 12 update_df))
                        else 8400000);
                     update_prev =
                       (if measured then np_mean (map (\<lambda>(m, c). real_of_int c) (take 12 update_df))
                        else 7000000)
                 in Inr (Some
                      \<lparr>enrolment_growth_yoy =
                         np_round 1 (np_scale (np_true_divide (recent_12m - prev_12m) prev_12m) 100),
                       update_growth_yoy =
                         np_round 1 (np_scale (np_true_divide (update_recent - update_prev)
                                                 update_prev) 100),
                       daily_average_enrolments = py_int (recent_12m / 30),
                       daily_average_updates = py_int (update_recent / 30),
                       peak_month = stamp_b_Y (first_with (Max (set (map enrolments df))) df),
                       lowest_month = stamp_b_Y (first_with (Min (set (map enrolments df))) df)\<rparr>))))"

subsection \<open>Alerts\<close>

record alert =
  al_type :: string
  message :: string
  al_region :: string
  al_severity :: string

definition surge_alert :: "state_row \<Rightarrow> alert" where
  "surge_alert s =
     \<lparr>al_type = ''info'',
      message =
        ''Enrolment surge detected in '' @ st_name s @ '' (+'' @
        format_fixed 1 (st_yoy_growth s) @ ''% this week)'',
      al_region = st_name s,
      al_severity = ''medium''\<rparr>"

definition capacity_alert :: "state_row \<Rightarrow> alert" where
  "capacity_alert s =
     \<lparr>al_type = ''warning'',
      message = ''Update centre capacity nearing limit in '' @ st_name s,
      al_region = st_name s,
      al_severity = ''high''\<rparr>"

text \<open>\<^verbatim>\<open>_generate_alerts(states, trends)\<close>; the function does not read \<^verbatim>\<open>trends\<close>.\<close>

definition generate_alerts :: "state_row list \<Rightarrow> trends option \<Rightarrow> alert list" where
  "generate_alerts states trends_arg =
     (let high_growth_states = filter (\<lambda>s. 15 < st_yoy_growth s) states;
          alerts1 = (case high_growth_states of [] \<Rightarrow> [] | s # rest \<Rightarrow> [surge_alert s]);
          metro_states = filter (\<lambda>s. st_code s \<in> set [''DL'', ''MH'', ''KA'', ''TN'']) states;
          high_volume = filter (\<lambda>s. 1000000 < monthly_enrolments s) metro_states;
          alerts2 = (case high_volume of [] \<Rightarrow> [] | s # rest \<Rightarrow> [capacity_alert s])
      in alerts1 @ alerts2)"

subsection \<open>Seasonal patterns\<close>

record seasonal_entry =
  se_month :: string
  month_num :: nat
  se_index :: npfloat

text \<open>The loop that fills the dictionaries \<^verbatim>\<open>monthly_avg\<close> and \<^verbatim>\<open>monthly_count\<close>; a period
  that \<^verbatim>\<open>strptime\<close> rejects raises \<^verbatim>\<open>ValueError\<close>.\<close>

fun seasonal_accumulate ::
  "time_point list \<Rightarrow> (nat \<rightharpoonup> int) \<Rightarrow> (nat \<rightharpoonup> int) \<Rightarrow>
   py_error + ((nat \<rightharpoonup> int) \<times> (nat \<rightharpoonup> int))" where
  "seasonal_accumulate [] monthly_avg monthly_count = Inr (monthly_avg, monthly_count)"
| "seasonal_accumulate (t # ts) monthly_avg monthly_count =
     (case strptime_Y_m_month (tp_period t) of
        Inl e \<Rightarrow> Inl e
      | Inr month \<Rightarrow>
          (let avg1 = (if monthly_avg month = None then monthly_avg(month \<mapsto> 0) else monthly_avg);
               count1 = (if monthly_avg month = None then monthly_count(month \<mapsto> 0)
                         else monthly_count)
           in case (avg1 month, count1 month) of
                (Some a, Some c) \<Rightarrow>
                  seasonal_accumulate ts (avg1(month \<mapsto> a + tp_val t)) (count1(month \<mapsto> c + 1))
              | other \<Rightarrow> Inl KeyError))"

definition seasonal_ratio :: "int \<Rightarrow> int \<Rightarrow> real \<Rightarrow> npfloat" where
  "seasonal_ratio month_total n overall_avg =
     np_true_divide (real_of_int month_total / real_of_int n) overall_avg"

definition calculate_seasonal_patterns :: "time_point list \<Rightarrow> py_error + seasonal_entry list" where
  "calculate_seasonal_patterns timeseries =
     (if timeseries = [] then Inr []
      else
        (let overall_avg = np_mean (map (\<lambda>t. real_of_int (tp_val t)) timeseries)
         in case seasonal_accumulate timeseries Map.empty Map.empty of
              Inl e \<Rightarrow> Inl e
            | Inr (monthly_avg, monthly_count) \<Rightarrow>
                (if \<forall>m \<in> set [1..<13]. monthly_avg m \<noteq> None \<longrightarrow> monthly_count m \<noteq> None
                 then Inr (map (\<lambda>m. \<lparr>se_month = month_abbr m,
                                      month_num = m,
                                      se_index =
                                        np_round 3 (seasonal_ratio (the (monthly_avg m))
                                                      (the (monthly_count m)) overall_avg)\<rparr>)
                             (filter (\<lambda>m. monthly_avg m \<noteq> None) [1..<13]))
                 else Inl KeyError)))"

subsection \<open>Update fatigue\<close>

record fatigue_district =
  fd_district :: string
  fd_state :: string
  score :: real

record fatigue_metrics =
  national_index :: real
  high_fatigue_districts :: "fatigue_district list"
  fm_trend :: string

text \<open>Two districts for every state among the first ten whose update rate exceeds 0.08;
  \<open>draws\<close> are the values of \<^verbatim>\<open>np.random.uniform(0, 0.05)\<close> in the order they are drawn.\<close>

fun fatigue_districts :: "state_row list \<Rightarrow> real list \<Rightarrow> fatigue_district list" where
  "fatigue_districts [] draws = []"
| "fatigue_districts (state # rest) draws =
     (if 0.08 < update_rate state
      then
        map (\<lambda>i. \<lparr>fd_district = st_name state @ '' District '' @ dec_str (i + 1),
                   fd_state = st_name state,
                   score = py_round 2 (min 1.0 ((update_rate state + draws ! i) * 8))\<rparr>) [0, 1]
        @ fatigue_districts rest (drop 2 draws)
      else fatigue_districts rest draws)"

definition calculate_update_fatigue :: "(nat \<Rightarrow> real) \<Rightarrow> repository \<Rightarrow> fatigue_metrics" where
  "calculate_update_fatigue rng repo =
     (let states = get_state_data repo;
          districts = take 5 (sort_key (\<lambda>d. - score d)
                        (fatigue_districts (take 10 states) (map rng [0..<20])))
      in \<lparr>national_index =
            py_round 2 (if districts \<noteq> [] then np_mean (map score districts) else 0.72),
          high_fatigue_districts = districts,
          fm_trend = ''increasing''\<rparr>)"

subsection \<open>Update analytics\<close>

record update_summary =
  total_monthly_average :: int
  most_common_type :: string
  growth_rate :: real

record update_analytics =
  ua_update_types :: "update_type_entry list"
  ua_timeseries :: "time_point list"
  seasonal_patterns :: "seasonal_entry list"
  update_fatigue_index :: fatigue_metrics
  ua_summary :: update_summary

text \<open>
  \<^verbatim>\<open>get_update_analytics\<close>. The entries of the summary are evaluated in the order of the
  dictionary literal: \<^verbatim>\<open>int(np.mean([]))\<close> raises \<^verbatim>\<open>ValueError\<close> on the empty series, and
  the growth rate divides two Python integers, which raises \<^verbatim>\<open>ZeroDivisionError\<close> when the
  first value of the series is zero.
\<close>

definition get_update_analytics :: "(nat \<Rightarrow> real) \<Rightarrow> repository \<Rightarrow> py_error + update_analytics" where
  "get_update_analytics rng repo =
     (let update_types = get_update_types repo;
          update_timeseries = get_update_timeseries repo 24
      in case calculate_seasonal_patterns update_timeseries of
           Inl e \<Rightarrow> Inl e
         | Inr seasonal_indices \<Rightarrow>
             (let fatigue = calculate_update_fatigue rng repo
              in if update_timeseries = [] then Inl ValueError
                 else
                   (let total_monthly_average0 =
                          py_int (np_mean (map (\<lambda>t. real_of_int (tp_val t)) update_timeseries));
                        most_common_type0 =
                          (case update_types of [] \<Rightarrow> ''Address'' | ut # rest \<Rightarrow> ut_type ut)
                    in if update_timeseries \<noteq> []
                       then
                         (if tp_val (hd update_timeseries) = 0 then Inl ZeroDivisionError
                          else Inr
                            \<lparr>ua_update_types = update_types,
                             ua_timeseries = update_timeseries,
                             seasonal_patterns = seasonal_indices,
                             update_fatigue_index = fatigue,
                             ua_summary =
                               \<lparr>total_monthly_average = total_monthly_average0,
                                most_common_type = most_common_type0,
                                growth_rate =
                                  py_round 1
                                    (real_of_int (tp_val (last update_timeseries)
                                                  - tp_val (hd update_timeseries))
                                     / real_of_int (tp_val (hd update_timeseries)) * 100)\<rparr>\<rparr>)
                       else Inr
                            \<lparr>ua_update_types = update_types,
                             ua_timeseries = update_timeseries,
                             seasonal_patterns = seasonal_indices,
                             update_fatigue_index = fatigue,
                             ua_summary =
                               \<lparr>total_monthly_average = total_monthly_average0,
                                most_common_type = most_common_type0,
                                growth_rate = 0\<rparr>\<rparr>)))"

section \<open>The synthetic enrolment generator\<close>





section \<open>Notions used in the statements\<close>

text \<open>The two alert rules as predicates on a state.\<close>

definition surge_rule :: "state_row \<Rightarrow> bool" where
  "surge_rule s = (15 < st_yoy_growth s)"

definition capacity_rule :: "state_row \<Rightarrow> bool" where
  "capacity_rule s =
     (st_code s \<in> {''DL'', ''MH'', ''KA'', ''TN''} \<and> 1000000 < monthly_enrolments s)"

text \<open>
  Notions for the seasonal patterns of a series: whether \<^verbatim>\<open>strptime\<close> accepts the period of
  a point, the calendar month of a point, the points of a month and their total, the entry
  emitted for a month, the months that have an observation, and the seasonal ratio of a
  month before it is rounded.
\<close>

definition parses :: "time_point \<Rightarrow> bool" where
  "parses t = (case strptime_Y_m_month (tp_period t) of Inl e \<Rightarrow> False | Inr m \<Rightarrow> True)"

definition month_of_point :: "time_point \<Rightarrow> nat" where
  "month_of_point t = (case strptime_Y_m_month (tp_period t) of Inl e \<Rightarrow> 0 | Inr m \<Rightarrow> m)"

definition month_points :: "time_point list \<Rightarrow> nat \<Rightarrow> time_point list" where
  "month_points ts m = filter (\<lambda>t. month_of_point t = m) ts"

definition month_total :: "time_point list \<Rightarrow> nat \<Rightarrow> int" where
  "month_total ts m = sum_list (map tp_val (month_points ts m))"

definition opt0 :: "int option \<Rightarrow> int" where
  "opt0 x = (case x of None \<Rightarrow> 0 | Some a \<Rightarrow> a)"

definition seasonal_entry_of :: "time_point list \<Rightarrow> nat \<Rightarrow> seasonal_entry" where
  "seasonal_entry_of ts m =
     \<lparr>se_month = month_abbr m, month_num = m,
      se_index = np_round 3 (seasonal_ratio (month_total ts m) (int (length (month_points ts m)))
                   (np_mean (map (\<lambda>t. real_of_int (tp_val t)) ts)))\<rparr>"

definition observed_months :: "time_point list \<Rightarrow> nat list" where
  "observed_months ts = filter (\<lambda>m. month_points ts m \<noteq> []) [1..<13]"

definition seasonal_raw :: "time_point list \<Rightarrow> nat \<Rightarrow> real" where
  "seasonal_raw ts m =
     real_of_int (month_total ts m) / real (length (month_points ts m))
       / np_mean (map (\<lambda>t. real_of_int (tp_val t)) ts)"

section \<open>Example inputs\<close>

text \<open>A clock that reads 4 November 2026, and a repository whose enrolment frame holds a
  given list of monthly counts from January 2024 on.\<close>

definition example_clock :: "nat \<Rightarrow> datetime" where
  "example_clock k =
     \<lparr>dt_ordinal = 739924, dt_hour = 9, dt_minute = 30, dt_second = k, dt_microsecond = 0\<rparr>"

fun example_rows :: "int \<Rightarrow> nat \<Rightarrow> int list \<Rightarrow> enrol_row list" where
  "example_rows c k [] = []"
| "example_rows c k (v # vs) =
     \<lparr>er_month = (2024 + k div 12, k mod 12 + 1), enrolments = v, cumulative = c + v,
      yoy_growth = Fin 0\<rparr> # example_rows (c + v) (Suc k) vs"





text \<open>Three states with given update rates, the demographics of the synthetic generator,
  and an engine that has not produced an anomaly yet.\<close>

definition example_states :: "real \<Rightarrow> real \<Rightarrow> real \<Rightarrow> state_row list" where
  "example_states r1 r2 r3 =
     [\<lparr>st_name = ''Uttar Pradesh'', st_code = ''UP'', st_region = ''North'',
       total_enrolments = 185000000, monthly_enrolments = 1480000, st_yoy_growth = 16.2,
       update_rate = r1, urban_pct = 0.30\<rparr>,
      \<lparr>st_name = ''Maharashtra'', st_code = ''MH'', st_region = ''West'',
       total_enrolments = 128000000, monthly_enrolments = 1024000, st_yoy_growth = 15.5,
       update_rate = r2, urban_pct = 0.45\<rparr>,
      \<lparr>st_name = ''Bihar'', st_code = ''BR'', st_region = ''East'',
       total_enrolments = 112000000, monthly_enrolments = 896000, st_yoy_growth = 9.0,
       update_rate = r3, urban_pct = 0.25\<rparr>]"

definition example_demographics :: demographics where
  "example_demographics =
     [(''age_groups'',
        [(''0-5'', \<lparr>b_enrolments = 45000000, b_pct = 3.1\<rparr>),
         (''5-18'', \<lparr>b_enrolments = 280000000, b_pct = 19.3\<rparr>),
         (''18-30'', \<lparr>b_enrolments = 350000000, b_pct = 24.1\<rparr>),
         (''30-45'', \<lparr>b_enrolments = 320000000, b_pct = 22.1\<rparr>),
         (''45-60'', \<lparr>b_enrolments = 250000000, b_pct = 17.2\<rparr>),
         (''60+'', \<lparr>b_enrolments = 205000000, b_pct = 14.2\<rparr>)]),
      (''gender'',
        [(''Male'', \<lparr>b_enrolments = 740000000, b_pct = 51.0\<rparr>),
         (''Female'', \<lparr>b_enrolments = 700000000, b_pct = 48.3\<rparr>),
         (''Other'', \<lparr>b_enrolments = 10000000, b_pct = 0.7\<rparr>)]),
      (''location'',
        [(''Urban'', \<lparr>b_enrolments = 845000000, b_pct = 58.2\<rparr>),
         (''Rural'', \<lparr>b_enrolments = 605000000, b_pct = 41.8\<rparr>)])]"

definition census_repo :: "real \<Rightarrow> real \<Rightarrow> real \<Rightarrow> repository" where
  "census_repo r1 r2 r3 =
     \<lparr>enrolment_data = None, update_data = None,
      demographics_data = Some example_demographics,
      state_data = Some (example_states r1 r2 r3)\<rparr>"

definition fresh_engine :: engine_state where
  "fresh_engine = \<lparr>anomaly_counter = 0, clock_reads = 0\<rparr>"


text \<open>Two months of a series, the first with one update and the second with ten
  thousand.\<close>

definition lopsided_series :: "time_point list" where
  "lopsided_series =
     [\<lparr>tp_period = ''2024-01'', tp_month_name = ''Jan 2024'', tp_val = 1,
       tp_cumulative = None, tp_yoy_growth = None\<rparr>,
      \<lparr>tp_period = ''2024-02'', tp_month_name = ''Feb 2024'', tp_val = 10000,
       tp_cumulative = None, tp_yoy_growth = None\<rparr>]"

text \<open>
  A repository whose earliest month carries no activity: the first twelve enrolment rows are
  zero, and the update frame records zero updates of each type for January 2024.
\<close>

definition zero_baseline_repo :: repository where
  "zero_baseline_repo =
     \<lparr>enrolment_data =
        Some (example_rows 1200000000 0 (replicate 12 0 @ replicate 12 12000000)),
      update_data =
        Some [\<lparr>ur_month = (2024, 1), update_type = ''Address'', ur_count = 0\<rparr>,
              \<lparr>ur_month = (2024, 1), update_type = ''Mobile'', ur_count = 0\<rparr>,
              \<lparr>ur_month = (2024, 2), update_type = ''Address'', ur_count = 3800000\<rparr>,
              \<lparr>ur_month = (2024, 2), update_type = ''Mobile'', ur_count = 2800000\<rparr>],
      demographics_data = Some example_demographics,
      state_data = Some (example_states 0.11 0.12 0.15)\<rparr>"

section \<open>Properties of the forecast engine\<close>

subsection \<open>Auxiliary facts\<close>








subsection \<open>The decomposition and the regression return on a series of two or more points\<close>





subsection \<open>Every step of the extrapolation\<close>




subsection \<open>The forecast of a series of twelve or more points\<close>


subsection \<open>The example inputs evaluated\<close>

lemma example_rows_vals: "map enrolments (example_rows c k vs) = vs"
  by (induction vs arbitrary: c k) auto

lemma length_example_rows: "length (example_rows c k vs) = length vs"
  by (induction vs arbitrary: c k) auto









subsection \<open>Claims on the forecast\<close>








section \<open>The fit metrics\<close>









lemma round_half_even_ge: "of_int k \<le> x \<Longrightarrow> k \<le> round_half_even x"
proof -
  assume "of_int k \<le> x"
  then have "k \<le> \<lfloor>x\<rfloor>" by (simp add: le_floor_iff)
  then show ?thesis by (auto simp: round_half_even_def Let_def)
qed

lemma round_half_even_le: "x \<le> of_int k \<Longrightarrow> round_half_even x \<le> k"
proof -
  assume a: "x \<le> of_int k"
  then have f: "\<lfloor>x\<rfloor> \<le> k" by (metis floor_mono floor_of_int)
  show ?thesis
  proof (cases "x - of_int \<lfloor>x\<rfloor> < 1 / 2")
    case True
    then show ?thesis using f by (simp add: round_half_even_def Let_def)
  next
    case False
    then have "of_int \<lfloor>x\<rfloor> < x" by simp
    then have "of_int \<lfloor>x\<rfloor> < (of_int k :: real)" using a by linarith
    then have "\<lfloor>x\<rfloor> < k" by simp
    then show ?thesis by (auto simp: round_half_even_def Let_def)
  qed
qed

lemma py_round_bounds:
  assumes "of_int a \<le> x" "x \<le> of_int b"
  shows "of_int a \<le> py_round n x" "py_round n x \<le> of_int b"
proof -
  have "of_int (a * 10 ^ n) \<le> x * 10 ^ n" using assms(1) by simp
  then have "a * 10 ^ n \<le> round_half_even (x * 10 ^ n)" by (rule round_half_even_ge)
  then have "(of_int (a * 10 ^ n) :: real) \<le> of_int (round_half_even (x * 10 ^ n))"
    by (simp only: of_int_le_iff)
  then show "of_int a \<le> py_round n x"
    by (simp add: py_round_def pos_le_divide_eq)
  have "x * 10 ^ n \<le> of_int (b * 10 ^ n)" using assms(2) by simp
  then have "round_half_even (x * 10 ^ n) \<le> b * 10 ^ n" by (rule round_half_even_le)
  then have "(of_int (round_half_even (x * 10 ^ n)) :: real) \<le> of_int (b * 10 ^ n)"
    by (simp only: of_int_le_iff)
  then show "py_round n x \<le> of_int b"
    by (simp add: py_round_def pos_divide_le_eq)
qed






section \<open>Properties of the anomaly detection engine\<close>

subsection \<open>The loops and the detectors\<close>

lemma flag_loop_map2:
  "\<exists>stamps. length stamps = length (filter cond xs) \<and>
     fst (flag_loop clock cond mk xs st) = map2 mk stamps (filter cond xs)"
proof (induction xs arbitrary: st)
  case Nil
  then show ?case by simp
next
  case (Cons x xs)
  show ?case
  proof (cases "cond x")
    case False
    then show ?thesis using Cons.IH[of st] by simp
  next
    case True
    obtain stamp st1 where s: "stamp_anomaly clock st = (stamp, st1)" by (cases "stamp_anomaly clock st")
    obtain stamps where
      "length stamps = length (filter cond xs)"
      "fst (flag_loop clock cond mk xs st1) = map2 mk stamps (filter cond xs)"
      using Cons.IH[of st1] by blast
    then show ?thesis using True s
      by (intro exI[of _ "stamp # stamps"]) (simp add: split_beta)
  qed
qed

lemma length_flag_loop: "length (fst (flag_loop clock cond mk xs st)) = length (filter cond xs)"
  using flag_loop_map2[of cond xs clock mk st] by auto

lemma enrolment_loop_total:
  "get_state_data repo \<noteq> [] \<Longrightarrow>
     \<exists>as st'. enrolment_loop threshold clock repo vals items st = (Inr as, st')"
proof (induction items arbitrary: st)
  case Nil
  then show ?case by simp
next
  case (Cons item items)
  obtain i ts z where item: "item = (i, ts, z)" by (cases item)
  show ?case
  proof (cases "np_greater (np_abs z) threshold")
    case False
    then show ?thesis using Cons item by simp
  next
    case True
    obtain stamp st1 where s: "stamp_anomaly clock st = (stamp, st1)" by (cases "stamp_anomaly clock st")
    obtain as st' where "enrolment_loop threshold clock repo vals items st1 = (Inr as, st')"
      using Cons by blast
    then show ?thesis using True item s Cons.prems by (simp add: Let_def)
  qed
qed

lemma detect_enrolment_total:
  "get_state_data repo \<noteq> [] \<Longrightarrow>
     \<exists>as st'. detect_enrolment_anomalies threshold clock repo st = (Inr as, st')"
proof -
  assume a: "get_state_data repo \<noteq> []"
  show ?thesis
  proof (cases "length (get_enrolment_timeseries repo 24) < 12")
    case True
    then show ?thesis by (simp add: detect_enrolment_anomalies_def)
  next
    case False
    let ?ts = "get_enrolment_timeseries repo 24"
    let ?vals = "map (\<lambda>t. real_of_int (tp_val t)) ?ts"
    obtain as st' where
      "enrolment_loop threshold clock repo ?vals (zip [0..<length ?ts] (zip ?ts (zscore ?vals))) st
         = (Inr as, st')"
      using enrolment_loop_total[OF a] by blast
    then show ?thesis using False by (simp add: detect_enrolment_anomalies_def Let_def)
  qed
qed

lemma detect_enrolment_length:
  "detect_enrolment_anomalies threshold clock repo st = (Inr as, st') \<Longrightarrow> length as \<le> 3"
  by (auto simp: detect_enrolment_anomalies_def Let_def split: if_splits prod.splits sum.splits)

lemma detect_update_length: "length (fst (detect_update_anomalies clock repo st)) \<le> 2"
  by (simp add: detect_update_anomalies_def Let_def split_beta)

lemma detect_geographic_length: "length (fst (detect_geographic_anomalies clock repo st)) \<le> 2"
  by (simp add: detect_geographic_anomalies_def Let_def split_beta)

lemma detect_demographic_length:
  "detect_demographic_anomalies clock repo st = (Inr as, st') \<Longrightarrow> length as \<le> 1"
  by (auto simp: detect_demographic_anomalies_def Let_def split: if_splits prod.splits sum.splits)

lemma detect_demographic_total:
  assumes "detection_inputs_present repo"
  shows "\<exists>as st'. detect_demographic_anomalies clock repo st = (Inr as, st')"
  using assms
  by (auto simp: detection_inputs_present_def detect_demographic_anomalies_def Let_def
      split: sum.splits prod.splits)

lemma detect_all_unfold:
  assumes "detect_all_anomalies threshold clock repo st = (Inr res, st')"
  shows "\<exists>a1 s1 a2 s2 a3 s3 a4.
      detect_enrolment_anomalies threshold clock repo st = (Inr a1, s1) \<and>
      detect_update_anomalies clock repo s1 = (a2, s2) \<and>
      detect_geographic_anomalies clock repo s2 = (a3, s3) \<and>
      detect_demographic_anomalies clock repo s3 = (Inr a4, st') \<and>
      res = sort_key anomaly_key (a1 @ a2 @ a3 @ a4)"
  using assms
  by (auto simp: detect_all_anomalies_def split: prod.splits sum.splits)

lemma detect_all_total:
  assumes "detection_inputs_present repo"
  shows "\<exists>res st'. detect_all_anomalies threshold clock repo st = (Inr res, st')"
proof -
  have s: "get_state_data repo \<noteq> []" using assms by (simp add: detection_inputs_present_def)
  obtain a1 s1 where d1: "detect_enrolment_anomalies threshold clock repo st = (Inr a1, s1)"
    using detect_enrolment_total[OF s] by blast
  obtain a2 s2 where d2: "detect_update_anomalies clock repo s1 = (a2, s2)"
    by (cases "detect_update_anomalies clock repo s1")
  obtain a3 s3 where d3: "detect_geographic_anomalies clock repo s2 = (a3, s3)"
    by (cases "detect_geographic_anomalies clock repo s2")
  obtain a4 s4 where d4: "detect_demographic_anomalies clock repo s3 = (Inr a4, s4)"
    using detect_demographic_total[OF assms] by blast
  show ?thesis by (simp add: detect_all_anomalies_def d1 d2 d3 d4)
qed



lemma census_states: "get_state_data (census_repo r1 r2 r3) = example_states r1 r2 r3"
  by (simp add: get_state_data_def census_repo_def example_states_def)

lemma census_update_types: "get_update_types (census_repo r1 r2 r3) = []"
  by (simp add: get_update_types_def census_repo_def)

lemma census_inputs_present: "detection_inputs_present (census_repo r1 r2 r3)"
  by (simp add: detection_inputs_present_def census_states)
     (simp add: example_states_def get_demographics_def census_repo_def gender_pct_def
        dict_get_def example_demographics_def)

lemma flag_loop_states:
  "map a_state (fst (flag_loop clock cond update_rate_anomaly xs st)) = map st_name (filter cond xs)"
proof -
  obtain stamps where s: "length stamps = length (filter cond xs)"
    "fst (flag_loop clock cond update_rate_anomaly xs st) =
       map2 update_rate_anomaly stamps (filter cond xs)"
    using flag_loop_map2 by blast
  have "map a_state (map2 update_rate_anomaly stamps (filter cond xs)) = map st_name (filter cond xs)"
    using s(1) by (intro nth_equalityI) (simp_all add: update_rate_anomaly_def)
  then show ?thesis using s(2) by simp
qed

lemma filter_nth_position:
  assumes "k < length xs" "P (xs ! k)"
  shows "length (filter P (take k xs)) < length (filter P xs)"
    "filter P xs ! length (filter P (take k xs)) = xs ! k"
proof -
  have xs: "xs = take k xs @ xs ! k # drop (Suc k) xs" using assms(1) by (rule id_take_nth_drop)
  have f: "filter P xs = filter P (take k xs) @ xs ! k # filter P (drop (Suc k) xs)"
    using assms(2) by (subst xs) simp
  show "length (filter P (take k xs)) < length (filter P xs)" by (subst f) simp
  show "filter P xs ! length (filter P (take k xs)) = xs ! k" by (subst f) simp
qed

lemma py_round_3_015: "py_round 3 (3 / 20) = 3 / 20"
  by (simp add: py_round_def round_half_even_def Let_def)



subsection \<open>Claims on the detectors\<close>



text \<open>
  C10. One call of \<^verbatim>\<open>detect_all_anomalies\<close> returns at most 8 anomalies: at most 3 from the
  series detector, 2 from the update detector, 2 from the geographic detector and 1 from
  the demographic detector. On an initialised repository the call does return.
\<close>

theorem detect_all_at_most_eight:
  "(\<forall>as st'. detect_enrolment_anomalies threshold clock repo st = (Inr as, st') \<longrightarrow> length as \<le> 3) \<and>
   length (fst (detect_update_anomalies clock repo st)) \<le> 2 \<and>
   length (fst (detect_geographic_anomalies clock repo st)) \<le> 2 \<and>
   (\<forall>as st'. detect_demographic_anomalies clock repo st = (Inr as, st') \<longrightarrow> length as \<le> 1) \<and>
   (\<forall>res st'. detect_all_anomalies threshold clock repo st = (Inr res, st') \<longrightarrow> length res \<le> 8) \<and>
   (detection_inputs_present repo \<longrightarrow>
      (\<exists>res st'. detect_all_anomalies threshold clock repo st = (Inr res, st') \<and> length res \<le> 8))"
proof -
  have all: "\<And>res st'. detect_all_anomalies threshold clock repo st = (Inr res, st') \<Longrightarrow>
               length res \<le> 8"
  proof -
    fix res st'
    assume a: "detect_all_anomalies threshold clock repo st = (Inr res, st')"
    from detect_all_unfold[OF a] obtain a1 s1 a2 s2 a3 s3 a4 where
      d1: "detect_enrolment_anomalies threshold clock repo st = (Inr a1, s1)" and
      d2: "detect_update_anomalies clock repo s1 = (a2, s2)" and
      d3: "detect_geographic_anomalies clock repo s2 = (a3, s3)" and
      d4: "detect_demographic_anomalies clock repo s3 = (Inr a4, st')" and
      r: "res = sort_key anomaly_key (a1 @ a2 @ a3 @ a4)"
      by blast
    have "length a1 \<le> 3" using d1 by (rule detect_enrolment_length)
    moreover have "length a2 \<le> 2" using detect_update_length[of clock repo s1] d2 by simp
    moreover have "length a3 \<le> 2" using detect_geographic_length[of clock repo s2] d3 by simp
    moreover have "length a4 \<le> 1" using d4 by (rule detect_demographic_length)
    ultimately show "length res \<le> 8" unfolding r by simp
  qed
  have ex: "detection_inputs_present repo \<Longrightarrow>
      \<exists>res st'. detect_all_anomalies threshold clock repo st = (Inr res, st') \<and> length res \<le> 8"
  proof -
    assume "detection_inputs_present repo"
    then obtain res st' where
      r: "detect_all_anomalies threshold clock repo st = (Inr res, st')"
      using detect_all_total by blast
    then have "length res \<le> 8" by (rule all)
    with r show ?thesis by blast
  qed
  show ?thesis
  proof (intro conjI allI impI)
    fix as st'
    assume "detect_enrolment_anomalies threshold clock repo st = (Inr as, st')"
    then show "length as \<le> 3" by (rule detect_enrolment_length)
  next
    show "length (fst (detect_update_anomalies clock repo st)) \<le> 2"
      by (rule detect_update_length)
  next
    show "length (fst (detect_geographic_anomalies clock repo st)) \<le> 2"
      by (rule detect_geographic_length)
  next
    fix as st'
    assume "detect_demographic_anomalies clock repo st = (Inr as, st')"
    then show "length as \<le> 1" by (rule detect_demographic_length)
  next
    fix res st'
    assume "detect_all_anomalies threshold clock repo st = (Inr res, st')"
    then show "length res \<le> 8" by (rule all)
  next
    assume "detection_inputs_present repo"
    then show "\<exists>res st'. detect_all_anomalies threshold clock repo st = (Inr res, st') \<and>
                 length res \<le> 8"
      by (rule ex)
  qed
qed

theorem detect_all_at_most_eight_witness:
  "(\<exists>res st'. detect_all_anomalies default_zscore_threshold example_clock
                (census_repo 0.11 0.12 0.15) fresh_engine = (Inr res, st') \<and> length res \<le> 8) \<and>
   length (fst (detect_update_anomalies example_clock (census_repo 0.11 0.12 0.15) fresh_engine)) \<le> 2 \<and>
   length (fst (detect_geographic_anomalies example_clock (census_repo 0.11 0.12 0.15) fresh_engine)) \<le> 2"
  using detect_all_at_most_eight[of default_zscore_threshold example_clock
          "census_repo 0.11 0.12 0.15" fresh_engine]
        census_inputs_present[of "0.11" "0.12" "0.15"]
  by blast

text \<open>
  C7, as the code has it. A state among the first five by volume whose update rate is 0.15
  appears in the output of Detector 2 with severity \<^verbatim>\<open>low\<close> and its rate rounded to three
  decimals in the evidence, provided fewer than two anomalies are appended before it: the
  flags on the \<^verbatim>\<open>Address\<close> share, and the earlier states whose update rate exceeds 0.10.
\<close>

theorem update_rate_state_flagged_within_cap:
  assumes "k < 5" and "k < length (get_state_data repo)"
    and "update_rate (get_state_data repo ! k) = 0.15"
    and "length (filter (\<lambda>ut. ut_type ut = ''Address'' \<and> np_greater (percentage ut) 45)
                   (get_update_types repo))
         + length (filter (\<lambda>s. 0.10 < update_rate s) (take k (get_state_data repo))) < 2"
  shows "\<exists>a \<in> set (fst (detect_update_anomalies clock repo st)).
           a_state a = st_name (get_state_data repo ! k) \<and> severity a = ''low'' \<and>
           map_of (evidence a) ''update_rate'' = Some (EvFloat (Fin 0.15)) \<and>
           map_of (evidence a) ''state_code'' = Some (EvStr (st_code (get_state_data repo ! k)))"
proof -
  let ?states = "get_state_data repo"
  let ?addr = "\<lambda>ut. ut_type ut = ''Address'' \<and> np_greater (percentage ut) 45"
  let ?q = "\<lambda>s. 0.10 < update_rate s"
  obtain by_type st1 where t: "flag_loop clock ?addr address_anomaly (get_update_types repo) st
      = (by_type, st1)" by (cases "flag_loop clock ?addr address_anomaly (get_update_types repo) st")
  obtain by_state st2 where s: "flag_loop clock ?q update_rate_anomaly (take 5 ?states) st1
      = (by_state, st2)" by (cases "flag_loop clock ?q update_rate_anomaly (take 5 ?states) st1")
  have out: "fst (detect_update_anomalies clock repo st) = take 2 (by_type @ by_state)"
    by (simp only: detect_update_anomalies_def Let_def t s prod.case fst_conv)
  have lt: "length by_type = length (filter ?addr (get_update_types repo))"
    using length_flag_loop[of clock ?addr address_anomaly "get_update_types repo" st] t by simp
  obtain stamps where st: "length stamps = length (filter ?q (take 5 ?states))"
    "by_state = map2 update_rate_anomaly stamps (filter ?q (take 5 ?states))"
    using flag_loop_map2[of ?q "take 5 ?states" clock update_rate_anomaly st1] s by auto
  let ?p = "length (filter ?q (take k (take 5 ?states)))"
  have k5: "k < length (take 5 ?states)" using assms(1,2) by simp
  have nk: "take 5 ?states ! k = ?states ! k" using assms(1) by simp
  have qk: "?q (take 5 ?states ! k)" using assms(3) nk by simp
  have tk: "take k (take 5 ?states) = take k ?states" using assms(1) by (simp add: min_def)
  have p1: "?p < length (filter ?q (take 5 ?states))"
    and p2: "filter ?q (take 5 ?states) ! ?p = ?states ! k"
    using filter_nth_position[OF k5, of ?q] qk nk by simp_all
  have idx: "length by_type + ?p < 2" using assms(4) lt tk by simp
  let ?a = "(by_type @ by_state) ! (length by_type + ?p)"
  have a_eq: "?a = update_rate_anomaly (stamps ! ?p) (?states ! k)"
    using p1 p2 st by (simp add: nth_append)
  have in_len: "length by_type + ?p < length (by_type @ by_state)" using p1 st by simp
  have "take 2 (by_type @ by_state) ! (length by_type + ?p) = ?a" using idx by simp
  moreover have "length by_type + ?p < length (take 2 (by_type @ by_state))" using idx in_len by simp
  ultimately have mem: "?a \<in> set (take 2 (by_type @ by_state))" by (metis nth_mem)
  have "a_state ?a = st_name (?states ! k) \<and> severity ?a = ''low'' \<and>
        map_of (evidence ?a) ''update_rate'' = Some (EvFloat (Fin 0.15)) \<and>
        map_of (evidence ?a) ''state_code'' = Some (EvStr (st_code (?states ! k)))"
    unfolding a_eq by (simp add: update_rate_anomaly_def assms(3) py_round_3_015)
  then show ?thesis using mem out by auto
qed

theorem update_rate_state_flagged_within_cap_witness:
  "\<exists>a \<in> set (fst (detect_update_anomalies example_clock (census_repo 0.15 0.05 0.06) fresh_engine)).
     a_state a = ''Uttar Pradesh'' \<and> severity a = ''low'' \<and>
     map_of (evidence a) ''update_rate'' = Some (EvFloat (Fin 0.15)) \<and>
     map_of (evidence a) ''state_code'' = Some (EvStr ''UP'')"
proof -
  let ?repo = "census_repo 0.15 0.05 0.06"
  have h1: "(0::nat) < 5" by simp
  have h2: "0 < length (get_state_data ?repo)" by (simp add: census_states example_states_def)
  have h3: "update_rate (get_state_data ?repo ! 0) = 0.15"
    by (simp add: census_states example_states_def)
  have h4: "length (filter (\<lambda>ut. ut_type ut = ''Address'' \<and> np_greater (percentage ut) 45)
                   (get_update_types ?repo))
         + length (filter (\<lambda>s. 0.10 < update_rate s) (take 0 (get_state_data ?repo))) < 2"
    by (simp add: census_update_types)
  from update_rate_state_flagged_within_cap[OF h1 h2 h3 h4, of example_clock fresh_engine]
  show ?thesis by (simp add: census_states example_states_def)
qed

text \<open>
  Without the proviso the cap of two cuts the state off: with update rates 0.11, 0.12 and
  0.15 for the three largest states the output names the first two, and Bihar, whose rate
  is 0.15, is not in it.
\<close>

theorem update_rate_state_cut_by_cap:
  "update_rate (get_state_data (census_repo 0.11 0.12 0.15) ! 2) = 0.15 \<and>
   st_name (get_state_data (census_repo 0.11 0.12 0.15) ! 2) = ''Bihar'' \<and>
   map a_state (fst (detect_update_anomalies example_clock (census_repo 0.11 0.12 0.15)
                       fresh_engine))
     = [''Uttar Pradesh'', ''Maharashtra''] \<and>
   ''Bihar'' \<notin> a_state ` set (fst (detect_update_anomalies example_clock
                                     (census_repo 0.11 0.12 0.15) fresh_engine))"
proof -
  let ?repo = "census_repo 0.11 0.12 0.15"
  let ?q = "\<lambda>s. 0.10 < update_rate s"
  obtain by_state st2 where s: "flag_loop example_clock ?q update_rate_anomaly
      (take 5 (example_states 0.11 0.12 0.15)) fresh_engine = (by_state, st2)"
    by (cases "flag_loop example_clock ?q update_rate_anomaly
      (take 5 (example_states 0.11 0.12 0.15)) fresh_engine")
  have out: "fst (detect_update_anomalies example_clock ?repo fresh_engine) = take 2 by_state"
    by (simp only: detect_update_anomalies_def Let_def census_states census_update_types s
        flag_loop.simps prod.case fst_conv append_Nil)
  have "map a_state by_state = map st_name (filter ?q (take 5 (example_states 0.11 0.12 0.15)))"
    using flag_loop_states[of example_clock ?q "take 5 (example_states 0.11 0.12 0.15)" fresh_engine]
      s by simp
  then have "map a_state by_state = [''Uttar Pradesh'', ''Maharashtra'', ''Bihar'']"
    by (simp add: example_states_def)
  then have m: "map a_state (take 2 by_state) = [''Uttar Pradesh'', ''Maharashtra'']"
    by (simp add: take_map[symmetric])
  have "a_state ` set (take 2 by_state) = set (map a_state (take 2 by_state))" by simp
  then have n: "''Bihar'' \<notin> a_state ` set (take 2 by_state)" unfolding m by simp
  show ?thesis using m n unfolding out by (simp add: census_states example_states_def)
qed

section \<open>Properties of the analytics service\<close>

subsection \<open>Alerts\<close>

lemma find_filter_case: "(case filter P xs of [] \<Rightarrow> [] | x # rest \<Rightarrow> [f x]) =
   (case find P xs of None \<Rightarrow> [] | Some x \<Rightarrow> [f x])"
  by (induction xs) auto

lemma generate_alerts_find:
  "generate_alerts states trends_arg =
     (case find surge_rule states of None \<Rightarrow> [] | Some s \<Rightarrow> [surge_alert s]) @
     (case find capacity_rule states of None \<Rightarrow> [] | Some s \<Rightarrow> [capacity_alert s])"
proof -
  have 1: "filter (\<lambda>s. 15 < st_yoy_growth s) states = filter surge_rule states"
    by (rule filter_cong) (simp_all add: surge_rule_def)
  have 2: "filter (\<lambda>s. 1000000 < monthly_enrolments s)
             (filter (\<lambda>s. st_code s \<in> set [''DL'', ''MH'', ''KA'', ''TN'']) states)
           = filter capacity_rule states"
    unfolding filter_filter by (rule filter_cong) (auto simp: capacity_rule_def)
  have "generate_alerts states trends_arg =
     (case filter surge_rule states of [] \<Rightarrow> [] | s # rest \<Rightarrow> [surge_alert s]) @
     (case filter capacity_rule states of [] \<Rightarrow> [] | s # rest \<Rightarrow> [capacity_alert s])"
    unfolding generate_alerts_def Let_def 1 2 ..
  then show ?thesis unfolding find_filter_case .
qed

lemma find_not_None: "(\<exists>s \<in> set xs. P s) \<longleftrightarrow> find P xs \<noteq> None"
  by (auto simp: find_None_iff)

lemma example_alerts:
  "map (\<lambda>a. (al_type a, al_region a, al_severity a))
     (generate_alerts (example_states 0.11 0.12 0.15) None)
   = [(''info'', ''Uttar Pradesh'', ''medium''), (''warning'', ''Maharashtra'', ''high'')]"
  by (simp add: generate_alerts_def example_states_def surge_alert_def capacity_alert_def)

text \<open>
  C8, as the code has it. If some state has \<^verbatim>\<open>yoy_growth > 15\<close>, exactly one surge alert
  (type \<^verbatim>\<open>info\<close>, severity \<^verbatim>\<open>medium\<close>) is raised, and it names the first such state of the
  list; if some state of the metro set DL, MH, KA, TN has \<^verbatim>\<open>monthly_enrolments > 1000000\<close>,
  exactly one capacity alert (type \<^verbatim>\<open>warning\<close>, severity \<^verbatim>\<open>high\<close>) is raised, naming the
  first such state. Each rule looks at its own condition only, both may fire, and the
  surge alert stands before the capacity alert.
\<close>

theorem alerts_name_first_match:
  "(\<forall>s. find surge_rule states = Some s \<longrightarrow>
        filter (\<lambda>a. al_type a = ''info'') (generate_alerts states trends_arg) = [surge_alert s] \<and>
        al_region (surge_alert s) = st_name s \<and> al_severity (surge_alert s) = ''medium'') \<and>
   (find surge_rule states = None \<longrightarrow>
        filter (\<lambda>a. al_type a = ''info'') (generate_alerts states trends_arg) = []) \<and>
   (\<forall>s. find capacity_rule states = Some s \<longrightarrow>
        filter (\<lambda>a. al_type a = ''warning'') (generate_alerts states trends_arg)
          = [capacity_alert s] \<and>
        al_region (capacity_alert s) = st_name s \<and> al_severity (capacity_alert s) = ''high'') \<and>
   (find capacity_rule states = None \<longrightarrow>
        filter (\<lambda>a. al_type a = ''warning'') (generate_alerts states trends_arg) = []) \<and>
   generate_alerts states trends_arg =
     filter (\<lambda>a. al_type a = ''info'') (generate_alerts states trends_arg) @
     filter (\<lambda>a. al_type a = ''warning'') (generate_alerts states trends_arg) \<and>
   ((\<exists>s \<in> set states. surge_rule s) \<longleftrightarrow> find surge_rule states \<noteq> None) \<and>
   ((\<exists>s \<in> set states. capacity_rule s) \<longleftrightarrow> find capacity_rule states \<noteq> None)"
proof -
  have a: "\<And>s. al_type (surge_alert s) = ''info''" "\<And>s. al_type (capacity_alert s) = ''warning''"
    "\<And>s. al_region (surge_alert s) = st_name s" "\<And>s. al_severity (surge_alert s) = ''medium''"
    "\<And>s. al_region (capacity_alert s) = st_name s" "\<And>s. al_severity (capacity_alert s) = ''high''"
    by (simp_all add: surge_alert_def capacity_alert_def)
  show ?thesis
    unfolding generate_alerts_find find_not_None
    by (cases "find surge_rule states"; cases "find capacity_rule states") (simp_all add: a)
qed

theorem alerts_name_first_match_witness:
  "filter (\<lambda>a. al_type a = ''info'') (generate_alerts (example_states 0.11 0.12 0.15) None)
     = [surge_alert (example_states 0.11 0.12 0.15 ! 0)] \<and>
   filter (\<lambda>a. al_type a = ''warning'') (generate_alerts (example_states 0.11 0.12 0.15) None)
     = [capacity_alert (example_states 0.11 0.12 0.15 ! 1)] \<and>
   generate_alerts (example_states 0.11 0.12 0.15) None
     = [surge_alert (example_states 0.11 0.12 0.15 ! 0),
        capacity_alert (example_states 0.11 0.12 0.15 ! 1)]"
proof -
  let ?st = "example_states 0.11 0.12 0.15"
  have f1: "find surge_rule ?st = Some (?st ! 0)"
    by (simp add: example_states_def surge_rule_def)
  have f2: "find capacity_rule ?st = Some (?st ! 1)"
    by (simp add: example_states_def capacity_rule_def)
  note th = alerts_name_first_match[of ?st None]
  have a: "filter (\<lambda>a. al_type a = ''info'') (generate_alerts ?st None) = [surge_alert (?st ! 0)]"
    using th f1 by blast
  have b: "filter (\<lambda>a. al_type a = ''warning'') (generate_alerts ?st None)
             = [capacity_alert (?st ! 1)]"
    using th f2 by blast
  have "generate_alerts ?st None =
     filter (\<lambda>a. al_type a = ''info'') (generate_alerts ?st None) @
     filter (\<lambda>a. al_type a = ''warning'') (generate_alerts ?st None)"
    using th by blast
  then have c: "generate_alerts ?st None = [surge_alert (?st ! 0), capacity_alert (?st ! 1)]"
    unfolding a b by simp
  show ?thesis using a b c by blast
qed

text \<open>
  A second state above the threshold is not named: with growth 16.2 for Uttar Pradesh
  and 15.5 for Maharashtra the only surge alert names Uttar Pradesh.
\<close>

theorem second_surge_state_not_named:
  "15 < st_yoy_growth (example_states 0.11 0.12 0.15 ! 1) \<and>
   st_name (example_states 0.11 0.12 0.15 ! 1) = ''Maharashtra'' \<and>
   map (\<lambda>a. (al_type a, al_region a, al_severity a))
     (generate_alerts (example_states 0.11 0.12 0.15) None)
   = [(''info'', ''Uttar Pradesh'', ''medium''), (''warning'', ''Maharashtra'', ''high'')] \<and>
   (''info'', ''Maharashtra'') \<notin>
     set (map (\<lambda>a. (al_type a, al_region a))
            (generate_alerts (example_states 0.11 0.12 0.15) None))"
proof -
  have "map (\<lambda>a. (al_type a, al_region a)) (generate_alerts (example_states 0.11 0.12 0.15) None)
        = map (\<lambda>(t, r, s). (t, r))
            (map (\<lambda>a. (al_type a, al_region a, al_severity a))
               (generate_alerts (example_states 0.11 0.12 0.15) None))"
    by (simp add: o_def)
  then have "map (\<lambda>a. (al_type a, al_region a)) (generate_alerts (example_states 0.11 0.12 0.15) None)
        = [(''info'', ''Uttar Pradesh''), (''warning'', ''Maharashtra'')]"
    unfolding example_alerts by simp
  then have "(''info'', ''Maharashtra'') \<notin>
     set (map (\<lambda>a. (al_type a, al_region a))
            (generate_alerts (example_states 0.11 0.12 0.15) None))"
    by simp
  then show ?thesis using example_alerts by (simp add: example_states_def)
qed

section \<open>Properties of the synthetic enrolment generator\<close>















section \<open>Properties of the seasonal indices\<close>

lemma strptime_range: "strptime_Y_m_month s = Inr m \<Longrightarrow> 1 \<le> m \<and> m \<le> 12"
  by (auto simp: strptime_Y_m_month_def Let_def split: if_splits)

lemma parses_month: "parses t \<Longrightarrow> strptime_Y_m_month (tp_period t) = Inr (month_of_point t)"
  by (auto simp: parses_def month_of_point_def split: sum.splits)

lemma month_of_point_range: "parses t \<Longrightarrow> 1 \<le> month_of_point t \<and> month_of_point t \<le> 12"
  using parses_month strptime_range by blast

lemma seasonal_accumulate_closed:
  assumes "list_all parses ts" and "\<forall>m. (monthly_avg m = None) = (monthly_count m = None)"
  shows "\<exists>avg' count'.
     seasonal_accumulate ts monthly_avg monthly_count = Inr (avg', count') \<and>
     (\<forall>m. avg' m = (if monthly_avg m = None \<and> month_points ts m = [] then None
                     else Some (opt0 (monthly_avg m) + month_total ts m))) \<and>
     (\<forall>m. count' m = (if monthly_count m = None \<and> month_points ts m = [] then None
                       else Some (opt0 (monthly_count m) + int (length (month_points ts m)))))"
  using assms
proof (induction ts arbitrary: monthly_avg monthly_count)
  case Nil
  then show ?case by (auto simp: month_points_def month_total_def opt0_def split: option.splits)
next
  case (Cons t ts)
  let ?mo = "month_of_point t"
  have p: "strptime_Y_m_month (tp_period t) = Inr ?mo" using Cons.prems(1) by (simp add: parses_month)
  let ?avg1 = "if monthly_avg ?mo = None then monthly_avg(?mo \<mapsto> 0) else monthly_avg"
  let ?cnt1 = "if monthly_avg ?mo = None then monthly_count(?mo \<mapsto> 0) else monthly_count"
  have inv: "(monthly_avg ?mo = None) = (monthly_count ?mo = None)" using Cons.prems(2) by blast
  have a1: "?avg1 ?mo = Some (opt0 (monthly_avg ?mo))"
    by (auto simp: opt0_def)
  have c1: "?cnt1 ?mo = Some (opt0 (monthly_count ?mo))"
    using inv by (auto simp: opt0_def)
  let ?avg2 = "?avg1(?mo \<mapsto> opt0 (monthly_avg ?mo) + tp_val t)"
  let ?cnt2 = "?cnt1(?mo \<mapsto> opt0 (monthly_count ?mo) + 1)"
  have step: "seasonal_accumulate (t # ts) monthly_avg monthly_count =
              seasonal_accumulate ts ?avg2 ?cnt2"
    using p a1 c1 by (simp add: Let_def)
  have inv2: "\<forall>m. (?avg2 m = None) = (?cnt2 m = None)" using Cons.prems(2) by auto
  have pts: "list_all parses ts" using Cons.prems(1) by simp
  from Cons.IH[OF pts inv2] obtain avg' count' where
    r: "seasonal_accumulate ts ?avg2 ?cnt2 = Inr (avg', count')" and
    a: "\<forall>m. avg' m = (if ?avg2 m = None \<and> month_points ts m = [] then None
                     else Some (opt0 (?avg2 m) + month_total ts m))" and
    c: "\<forall>m. count' m = (if ?cnt2 m = None \<and> month_points ts m = [] then None
                       else Some (opt0 (?cnt2 m) + int (length (month_points ts m))))"
    by blast
  have a': "\<forall>m. avg' m = (if monthly_avg m = None \<and> month_points (t # ts) m = [] then None
                     else Some (opt0 (monthly_avg m) + month_total (t # ts) m))"
  proof
    fix m
    show "avg' m = (if monthly_avg m = None \<and> month_points (t # ts) m = [] then None
                     else Some (opt0 (monthly_avg m) + month_total (t # ts) m))"
      using a[rule_format, of m]
      by (cases "m = ?mo") (auto simp: month_points_def month_total_def opt0_def)
  qed
  have c': "\<forall>m. count' m = (if monthly_count m = None \<and> month_points (t # ts) m = [] then None
                       else Some (opt0 (monthly_count m) + int (length (month_points (t # ts) m))))"
  proof
    fix m
    show "count' m = (if monthly_count m = None \<and> month_points (t # ts) m = [] then None
                       else Some (opt0 (monthly_count m) + int (length (month_points (t # ts) m))))"
      using c[rule_format, of m]
      by (cases "m = ?mo") (auto simp: month_points_def month_total_def opt0_def)
  qed
  show ?case unfolding step using r a' c' by blast
qed

lemma seasonal_accumulate_empty:
  assumes "list_all parses ts"
  shows "\<exists>avg' count'.
     seasonal_accumulate ts Map.empty Map.empty = Inr (avg', count') \<and>
     (\<forall>m. avg' m = (if month_points ts m = [] then None else Some (month_total ts m))) \<and>
     (\<forall>m. count' m = (if month_points ts m = [] then None
                       else Some (int (length (month_points ts m)))))"
proof -
  have "\<forall>m. ((Map.empty :: nat \<rightharpoonup> int) m = None) = ((Map.empty :: nat \<rightharpoonup> int) m = None)"
    by simp
  from seasonal_accumulate_closed[OF assms this] obtain avg' count' where
    r: "seasonal_accumulate ts Map.empty Map.empty = Inr (avg', count')" and
    a: "\<forall>m. avg' m = (if (Map.empty :: nat \<rightharpoonup> int) m = None \<and> month_points ts m = [] then None
                     else Some (opt0 ((Map.empty :: nat \<rightharpoonup> int) m) + month_total ts m))" and
    c: "\<forall>m. count' m = (if (Map.empty :: nat \<rightharpoonup> int) m = None \<and> month_points ts m = [] then None
                       else Some (opt0 ((Map.empty :: nat \<rightharpoonup> int) m)
                                  + int (length (month_points ts m))))"
    by blast
  have a': "\<forall>m. avg' m = (if month_points ts m = [] then None else Some (month_total ts m))"
    using a by (simp add: opt0_def)
  have c': "\<forall>m. count' m = (if month_points ts m = [] then None
                       else Some (int (length (month_points ts m))))"
    using c by (simp add: opt0_def)
  show ?thesis using r a' c' by blast
qed

lemma calculate_seasonal_patterns_closed:
  assumes "ts \<noteq> []" "list_all parses ts"
  shows "calculate_seasonal_patterns ts =
           Inr (map (seasonal_entry_of ts) (filter (\<lambda>m. month_points ts m \<noteq> []) [1..<13]))"
proof -
  obtain avg' count' where
    r: "seasonal_accumulate ts Map.empty Map.empty = Inr (avg', count')" and
    a: "\<forall>m. avg' m = (if month_points ts m = [] then None else Some (month_total ts m))" and
    c: "\<forall>m. count' m = (if month_points ts m = [] then None
                       else Some (int (length (month_points ts m))))"
    using seasonal_accumulate_empty[OF assms(2)] by blast
  have ok: "\<forall>m \<in> set [1..<13]. avg' m \<noteq> None \<longrightarrow> count' m \<noteq> None" using a c by simp
  have f: "filter (\<lambda>m. avg' m \<noteq> None) [1..<13] = filter (\<lambda>m. month_points ts m \<noteq> []) [1..<13]"
    by (rule filter_cong) (simp_all add: a)
  have m: "map (\<lambda>m. \<lparr>se_month = month_abbr m, month_num = m,
                     se_index = np_round 3 (seasonal_ratio (the (avg' m)) (the (count' m))
                                  (np_mean (map (\<lambda>t. real_of_int (tp_val t)) ts)))\<rparr>)
             (filter (\<lambda>m. month_points ts m \<noteq> []) [1..<13])
           = map (seasonal_entry_of ts) (filter (\<lambda>m. month_points ts m \<noteq> []) [1..<13])"
    by (rule map_cong) (simp_all add: a c seasonal_entry_of_def)
  have "calculate_seasonal_patterns ts =
          (if \<forall>m \<in> set [1..<13]. avg' m \<noteq> None \<longrightarrow> count' m \<noteq> None
           then Inr (map (seasonal_entry_of ts) (filter (\<lambda>m. month_points ts m \<noteq> []) [1..<13]))
           else Inl KeyError)"
    using assms(1) by (simp only: calculate_seasonal_patterns_def Let_def r f m if_False
        sum.case prod.case)
  then show ?thesis unfolding if_P[OF ok] .
qed

lemma round_half_even_pos_iff: "0 < round_half_even y \<longleftrightarrow> 1 / 2 < y"
proof
  assume a: "0 < round_half_even y"
  show "1 / 2 < y"
  proof (rule ccontr)
    assume "\<not> 1 / 2 < y"
    then have y: "y \<le> 1 / 2" by simp
    then have f: "\<lfloor>y\<rfloor> \<le> 0" by (simp add: floor_le_iff)
    show False
    proof (cases "\<lfloor>y\<rfloor> = 0")
      case True
      then have "y - of_int \<lfloor>y\<rfloor> \<le> 1 / 2" using y by simp
      then have "round_half_even y = 0" using True by (auto simp: round_half_even_def Let_def)
      then show False using a by simp
    next
      case False
      then have "\<lfloor>y\<rfloor> \<le> - 1" using f by linarith
      then have "round_half_even y \<le> 0" by (auto simp: round_half_even_def Let_def)
      then show False using a by simp
    qed
  qed
next
  assume a: "1 / 2 < y"
  then have f0: "0 \<le> \<lfloor>y\<rfloor>" by simp
  show "0 < round_half_even y"
  proof (cases "\<lfloor>y\<rfloor> = 0")
    case True
    then have "1 / 2 < y - of_int \<lfloor>y\<rfloor>" using a by simp
    then show ?thesis using True by (auto simp: round_half_even_def Let_def)
  next
    case False
    then have "1 \<le> \<lfloor>y\<rfloor>" using f0 by linarith
    then show ?thesis by (auto simp: round_half_even_def Let_def)
  qed
qed

lemma round_half_even_error: "\<bar>of_int (round_half_even y) - y\<bar> \<le> 1 / 2"
proof -
  have 1: "of_int \<lfloor>y\<rfloor> \<le> y" by simp
  have 2: "y < of_int \<lfloor>y\<rfloor> + 1" by linarith
  show ?thesis using 1 2 by (auto simp: round_half_even_def Let_def abs_le_iff)
qed

lemma py_round_error: "\<bar>py_round n x - x\<bar> \<le> 1 / (2 * 10 ^ n)"
proof -
  have "py_round n x - x = (of_int (round_half_even (x * 10 ^ n)) - x * 10 ^ n) / 10 ^ n"
    by (simp add: py_round_def diff_divide_distrib)
  then have "\<bar>py_round n x - x\<bar> = \<bar>of_int (round_half_even (x * 10 ^ n)) - x * 10 ^ n\<bar> / 10 ^ n"
    by (simp add: abs_divide)
  also have "\<dots> \<le> (1 / 2) / 10 ^ n"
    by (intro divide_right_mono round_half_even_error) simp
  finally show ?thesis by simp
qed

lemma py_round_pos_iff: "0 < py_round n x \<longleftrightarrow> 1 / 2 < x * 10 ^ n"
  by (simp add: py_round_def zero_less_divide_iff round_half_even_pos_iff)

lemma py_round_nonneg: "0 \<le> x \<Longrightarrow> 0 \<le> py_round n x"
  using py_round_bounds(1)[of 0 x "\<lceil>x\<rceil>" n] by (simp add: le_of_int_ceiling)

lemma sum_list_filter_zero:
  fixes g :: "'a \<Rightarrow> 'b::comm_monoid_add"
  assumes "\<And>x. x \<in> set xs \<Longrightarrow> \<not> P x \<Longrightarrow> g x = 0"
  shows "sum_list (map g (filter P xs)) = sum_list (map g xs)"
  using assms by (induction xs) auto

lemma sum_list_indicator_upt:
  fixes x :: "'b::comm_monoid_add"
  assumes "a \<le> k" "k < b"
  shows "sum_list (map (\<lambda>m. if k = m then x else 0) [a..<b]) = x"
proof -
  have "sum_list (map (\<lambda>m. if k = m then x else 0) [a..<b])
        = (\<Sum>m\<in>set [a..<b]. if k = m then x else 0)"
    by (rule sum_list_distinct_conv_sum_set) simp
  also have "\<dots> = x" using assms by simp
  finally show ?thesis .
qed

lemma month_partition:
  fixes f :: "time_point \<Rightarrow> 'b::comm_monoid_add"
  assumes "list_all parses ts"
  shows "sum_list (map (\<lambda>m. sum_list (map f (month_points ts m))) [1..<13]) = sum_list (map f ts)"
  using assms
proof (induction ts)
  case Nil
  then show ?case by (simp add: month_points_def)
next
  case (Cons t ts)
  have r: "1 \<le> month_of_point t" "month_of_point t < 13"
    using month_of_point_range[of t] Cons.prems by simp_all
  have "\<And>m. sum_list (map f (month_points (t # ts) m))
           = (if month_of_point t = m then f t else 0) + sum_list (map f (month_points ts m))"
    by (simp add: month_points_def)
  then have "sum_list (map (\<lambda>m. sum_list (map f (month_points (t # ts) m))) [1..<13])
      = sum_list (map (\<lambda>m. (if month_of_point t = m then f t else 0)
                             + sum_list (map f (month_points ts m))) [1..<13])"
    by simp
  also have "\<dots> = sum_list (map (\<lambda>m. if month_of_point t = m then f t else 0) [1..<13])
                 + sum_list (map (\<lambda>m. sum_list (map f (month_points ts m))) [1..<13])"
    by (rule sum_list_addf)
  also have "\<dots> = f t + sum_list (map f ts)"
    using sum_list_indicator_upt[OF r, of "f t"] Cons.IH Cons.prems by simp
  finally show ?case by simp
qed

lemma observed_sum:
  fixes f :: "time_point \<Rightarrow> 'b::comm_monoid_add"
  assumes "list_all parses ts"
  shows "sum_list (map (\<lambda>m. sum_list (map f (month_points ts m))) (observed_months ts))
         = sum_list (map f ts)"
proof -
  have "sum_list (map (\<lambda>m. sum_list (map f (month_points ts m))) (observed_months ts))
        = sum_list (map (\<lambda>m. sum_list (map f (month_points ts m))) [1..<13])"
    unfolding observed_months_def by (rule sum_list_filter_zero) simp
  then show ?thesis using month_partition[OF assms] by simp
qed

lemma observed_iff:
  assumes "list_all parses ts"
  shows "m \<in> set (observed_months ts) \<longleftrightarrow> (\<exists>t \<in> set ts. month_of_point t = m)"
proof
  assume "m \<in> set (observed_months ts)"
  then have "month_points ts m \<noteq> []" by (simp add: observed_months_def)
  then show "\<exists>t \<in> set ts. month_of_point t = m"
    by (auto simp: month_points_def filter_empty_conv)
next
  assume "\<exists>t \<in> set ts. month_of_point t = m"
  then obtain t where t: "t \<in> set ts" "month_of_point t = m" by blast
  then have "parses t" using assms by (simp add: list_all_iff)
  then have "1 \<le> m \<and> m \<le> 12" using month_of_point_range t(2) by blast
  moreover have "month_points ts m \<noteq> []" using t by (auto simp: month_points_def filter_empty_conv)
  ultimately show "m \<in> set (observed_months ts)" by (simp add: observed_months_def)
qed

lemma sum_list_abs_diff:
  fixes f g :: "'a \<Rightarrow> real"
  shows "\<bar>sum_list (map f xs) - sum_list (map g xs)\<bar> \<le> sum_list (map (\<lambda>x. \<bar>f x - g x\<bar>) xs)"
  by (induction xs) auto

lemma sum_list_const_mult:
  fixes f :: "'a \<Rightarrow> real"
  shows "sum_list (map (\<lambda>x. f x * c) xs) = sum_list (map f xs) * c"
  by (induction xs) (auto simp: algebra_simps)

lemma sum_list_strict_pos:
  fixes xs :: "'a::ordered_comm_monoid_add list"
  shows "xs \<noteq> [] \<Longrightarrow> (\<And>x. x \<in> set xs \<Longrightarrow> 0 < x) \<Longrightarrow> 0 < sum_list xs"
proof (induction xs)
  case Nil
  then show ?case by simp
next
  case (Cons x xs)
  show ?case
  proof (cases "xs = []")
    case True
    then show ?thesis using Cons.prems(2)[of x] by simp
  next
    case False
    then have "0 < sum_list xs" using Cons by simp
    moreover have "0 < x" using Cons.prems(2) by simp
    ultimately show ?thesis by (simp add: add_pos_pos)
  qed
qed

lemma real_of_int_sum_list: "real_of_int (sum_list xs) = sum_list (map real_of_int xs)"
  by (induction xs) auto

lemma month_total_pos:
  assumes "\<forall>t \<in> set ts. 0 < tp_val t" "month_points ts m \<noteq> []"
  shows "0 < month_total ts m"
proof -
  have "\<forall>t \<in> set (month_points ts m). 0 < tp_val t" using assms(1) by (simp add: month_points_def)
  then have "0 < sum_list (map tp_val (month_points ts m))"
    using assms(2) by (intro sum_list_strict_pos) auto
  then show ?thesis by (simp add: month_total_def)
qed

lemma overall_pos:
  assumes "ts \<noteq> []" "\<forall>t \<in> set ts. 0 < tp_val t"
  shows "0 < sum_list (map (\<lambda>t. real_of_int (tp_val t)) ts)"
    "0 < np_mean (map (\<lambda>t. real_of_int (tp_val t)) ts)"
proof -
  show s: "0 < sum_list (map (\<lambda>t. real_of_int (tp_val t)) ts)"
    using assms by (intro sum_list_strict_pos) auto
  show "0 < np_mean (map (\<lambda>t. real_of_int (tp_val t)) ts)"
    using s assms(1) by (simp add: np_mean_def)
qed

lemma weighted_raw_sum:
  assumes "ts \<noteq> []" "list_all parses ts" "\<forall>t \<in> set ts. 0 < tp_val t"
  shows "sum_list (map (\<lambda>m. real (length (month_points ts m)) * seasonal_raw ts m)
                     (observed_months ts)) = real (length ts)"
proof -
  let ?ov = "np_mean (map (\<lambda>t. real_of_int (tp_val t)) ts)"
  let ?S = "sum_list (map (\<lambda>t. real_of_int (tp_val t)) ts)"
  have ov: "0 < ?ov" and S: "0 < ?S" using overall_pos[OF assms(1,3)] by simp_all
  have each: "\<And>m. m \<in> set (observed_months ts) \<Longrightarrow>
      real (length (month_points ts m)) * seasonal_raw ts m
        = sum_list (map (\<lambda>t. real_of_int (tp_val t)) (month_points ts m)) * (1 / ?ov)"
  proof -
    fix m
    assume "m \<in> set (observed_months ts)"
    then have "month_points ts m \<noteq> []" by (simp add: observed_months_def)
    then have n: "0 < real (length (month_points ts m))" by simp
    have "real_of_int (month_total ts m)
            = sum_list (map (\<lambda>t. real_of_int (tp_val t)) (month_points ts m))"
      by (simp add: month_total_def real_of_int_sum_list o_def)
    then show "real (length (month_points ts m)) * seasonal_raw ts m
        = sum_list (map (\<lambda>t. real_of_int (tp_val t)) (month_points ts m)) * (1 / ?ov)"
      using n by (simp add: seasonal_raw_def)
  qed
  have "sum_list (map (\<lambda>m. real (length (month_points ts m)) * seasonal_raw ts m)
                     (observed_months ts))
        = sum_list (map (\<lambda>m. sum_list (map (\<lambda>t. real_of_int (tp_val t)) (month_points ts m))
                               * (1 / ?ov)) (observed_months ts))"
    by (rule arg_cong[where f = sum_list], rule map_cong) (simp_all add: each)
  also have "\<dots> = sum_list (map (\<lambda>m. sum_list (map (\<lambda>t. real_of_int (tp_val t))
                                  (month_points ts m))) (observed_months ts)) * (1 / ?ov)"
    by (rule sum_list_const_mult)
  also have "\<dots> = ?S * (1 / ?ov)"
    using observed_sum[OF assms(2), of "\<lambda>t. real_of_int (tp_val t)"] by simp
  also have "\<dots> = real (length ts)"
    using S assms(1) by (simp add: np_mean_def)
  finally show ?thesis .
qed

lemma observed_counts:
  assumes "list_all parses ts"
  shows "sum_list (map (\<lambda>m. real (length (month_points ts m))) (observed_months ts))
         = real (length ts)"
proof -
  have "sum_list (map (\<lambda>m. sum_list (map (\<lambda>t. 1::real) (month_points ts m))) (observed_months ts))
        = sum_list (map (\<lambda>t. 1::real) ts)"
    by (rule observed_sum[OF assms])
  then show ?thesis by (simp add: sum_list_triv)
qed

lemma weighted_rounded_sum:
  assumes "ts \<noteq> []" "list_all parses ts" "\<forall>t \<in> set ts. 0 < tp_val t"
  shows "\<bar>sum_list (map (\<lambda>m. real (length (month_points ts m)) * py_round 3 (seasonal_raw ts m))
                     (observed_months ts)) / real (length ts) - 1\<bar> \<le> 1 / 2000"
proof -
  let ?n = "\<lambda>m. real (length (month_points ts m))"
  let ?W = "sum_list (map (\<lambda>m. ?n m * py_round 3 (seasonal_raw ts m)) (observed_months ts))"
  let ?E = "sum_list (map (\<lambda>m. ?n m * seasonal_raw ts m) (observed_months ts))"
  have E: "?E = real (length ts)" by (rule weighted_raw_sum[OF assms])
  have "\<bar>?W - ?E\<bar> \<le> sum_list (map (\<lambda>m. \<bar>?n m * py_round 3 (seasonal_raw ts m)
                                          - ?n m * seasonal_raw ts m\<bar>) (observed_months ts))"
    by (rule sum_list_abs_diff)
  also have "\<dots> \<le> sum_list (map (\<lambda>m. ?n m * (1 / 2000)) (observed_months ts))"
  proof (rule sum_list_mono)
    fix m
    have "\<bar>?n m * py_round 3 (seasonal_raw ts m) - ?n m * seasonal_raw ts m\<bar>
          = ?n m * \<bar>py_round 3 (seasonal_raw ts m) - seasonal_raw ts m\<bar>"
      by (simp add: right_diff_distrib[symmetric] abs_mult)
    also have "\<dots> \<le> ?n m * (1 / (2 * 10 ^ 3))"
      by (intro mult_left_mono py_round_error) simp
    finally show "\<bar>?n m * py_round 3 (seasonal_raw ts m) - ?n m * seasonal_raw ts m\<bar>
          \<le> ?n m * (1 / 2000)" by simp
  qed
  also have "\<dots> = sum_list (map ?n (observed_months ts)) * (1 / 2000)"
    by (rule sum_list_const_mult)
  also have "\<dots> = real (length ts) * (1 / 2000)"
    by (simp only: observed_counts[OF assms(2)])
  finally have d: "\<bar>?W - real (length ts)\<bar> \<le> real (length ts) * (1 / 2000)" unfolding E .
  have n: "0 < real (length ts)" using assms(1) by simp
  have "?W / real (length ts) - 1 = (?W - real (length ts)) / real (length ts)"
    using n by (simp add: diff_divide_distrib)
  then have "\<bar>?W / real (length ts) - 1\<bar> = \<bar>?W - real (length ts)\<bar> / real (length ts)"
    using n by (simp add: abs_divide)
  also have "\<dots> \<le> (real (length ts) * (1 / 2000)) / real (length ts)"
    using d n by (intro divide_right_mono) simp_all
  also have "\<dots> = 1 / 2000" using n by simp
  finally show ?thesis .
qed

lemma seasonal_raw_pos:
  assumes "ts \<noteq> []" "\<forall>t \<in> set ts. 0 < tp_val t" "m \<in> set (observed_months ts)"
  shows "0 < seasonal_raw ts m"
proof -
  have p: "month_points ts m \<noteq> []" using assms(3) by (simp add: observed_months_def)
  have "0 < month_total ts m" using month_total_pos[OF assms(2) p] .
  moreover have "0 < real (length (month_points ts m))" using p by simp
  moreover have "0 < np_mean (map (\<lambda>t. real_of_int (tp_val t)) ts)"
    using overall_pos[OF assms(1,2)] by simp
  ultimately show ?thesis by (simp add: seasonal_raw_def)
qed

lemma seasonal_entry_index:
  assumes "ts \<noteq> []" "\<forall>t \<in> set ts. 0 < tp_val t"
  shows "se_index (seasonal_entry_of ts m) = Fin (py_round 3 (seasonal_raw ts m))"
    "month_num (seasonal_entry_of ts m) = m"
proof -
  have "np_mean (map (\<lambda>t. real_of_int (tp_val t)) ts) \<noteq> 0"
    using overall_pos[OF assms] by simp
  then show "se_index (seasonal_entry_of ts m) = Fin (py_round 3 (seasonal_raw ts m))"
    by (simp add: seasonal_entry_of_def seasonal_ratio_def np_true_divide_def seasonal_raw_def)
  show "month_num (seasonal_entry_of ts m) = m" by (simp add: seasonal_entry_of_def)
qed

lemma strptime_jan_feb:
  "strptime_Y_m_month ''2024-01'' = Inr 1" "strptime_Y_m_month ''2024-02'' = Inr 2"
  by (simp_all add: strptime_Y_m_month_def is_digit_def digit_val_def Let_def)

lemma lopsided_parses: "list_all parses lopsided_series"
  by (simp add: lopsided_series_def parses_def strptime_jan_feb)

lemma lopsided_positive: "\<forall>t \<in> set lopsided_series. 0 < tp_val t"
  by (simp add: lopsided_series_def)

lemma lopsided_months:
  "month_points lopsided_series m =
     (if m = 1 then [lopsided_series ! 0] else if m = 2 then [lopsided_series ! 1] else [])"
  by (simp add: month_points_def lopsided_series_def month_of_point_def strptime_jan_feb)

lemma lopsided_observed: "observed_months lopsided_series = [1, 2]"
  by (simp add: observed_months_def lopsided_months upt_rec[of _ "numeral _"])

lemma lopsided_patterns:
  "calculate_seasonal_patterns lopsided_series =
     Inr [\<lparr>se_month = ''Jan'', month_num = 1, se_index = Fin 0\<rparr>,
          \<lparr>se_month = ''Feb'', month_num = 2, se_index = Fin 2\<rparr>]"
proof -
  have ne: "lopsided_series \<noteq> []" by (simp add: lopsided_series_def)
  have mean: "np_mean (map (\<lambda>t. real_of_int (tp_val t)) lopsided_series) = 10001 / 2"
    by (simp add: lopsided_series_def np_mean_def)
  have e1: "seasonal_entry_of lopsided_series 1 = \<lparr>se_month = ''Jan'', month_num = 1, se_index = Fin 0\<rparr>"
    by (simp add: seasonal_entry_of_def mean lopsided_months month_total_def seasonal_ratio_def
        np_true_divide_def py_round_def round_half_even_def Let_def month_abbr_def)
       (simp add: lopsided_series_def)
  have e2: "seasonal_entry_of lopsided_series 2 = \<lparr>se_month = ''Feb'', month_num = 2, se_index = Fin 2\<rparr>"
    by (simp add: seasonal_entry_of_def mean lopsided_months month_total_def seasonal_ratio_def
        np_true_divide_def py_round_def round_half_even_def Let_def month_abbr_def)
       (simp add: lopsided_series_def)
  have obs: "filter (\<lambda>m. month_points lopsided_series m \<noteq> []) [1..<13] = [1, 2]"
    using lopsided_observed by (simp only: observed_months_def)
  show ?thesis
    by (simp only: calculate_seasonal_patterns_closed[OF ne lopsided_parses] obs list.map e1 e2)
qed

text \<open>
  C6, as the code has it. For a non-empty series of positive values whose periods are of
  the form \<^verbatim>\<open>%Y-%m\<close>, the seasonal patterns are returned; an index is emitted exactly for
  the calendar months that have an observation, in ascending order; the index of a month
  is its seasonal ratio (the month's mean over the series' mean, which is positive) rounded
  to three decimals, so it is not negative, and it is positive exactly when the ratio
  exceeds 0.0005; the average of the ratios weighted by the months' numbers of observations
  is 1, and that of the emitted indices differs from 1 by at most 0.0005.
\<close>

theorem seasonal_indices_weighted_mean:
  assumes "ts \<noteq> []" and "list_all parses ts" and "\<forall>t \<in> set ts. 0 < tp_val t"
  shows "\<exists>entries.
     calculate_seasonal_patterns ts = Inr entries \<and>
     map month_num entries = observed_months ts \<and>
     (\<forall>m. m \<in> set (observed_months ts) \<longleftrightarrow> (\<exists>t \<in> set ts. month_of_point t = m)) \<and>
     map se_index entries = map (\<lambda>m. Fin (py_round 3 (seasonal_raw ts m))) (observed_months ts) \<and>
     (\<forall>m \<in> set (observed_months ts).
        0 < seasonal_raw ts m \<and> 0 \<le> py_round 3 (seasonal_raw ts m) \<and>
        (0 < py_round 3 (seasonal_raw ts m) \<longleftrightarrow> 1 / 2000 < seasonal_raw ts m)) \<and>
     sum_list (map (\<lambda>m. real (length (month_points ts m)) * seasonal_raw ts m)
                 (observed_months ts)) / real (length ts) = 1 \<and>
     \<bar>sum_list (map (\<lambda>m. real (length (month_points ts m)) * py_round 3 (seasonal_raw ts m))
                 (observed_months ts)) / real (length ts) - 1\<bar> \<le> 1 / 2000"
proof -
  let ?entries = "map (seasonal_entry_of ts) (observed_months ts)"
  have c: "calculate_seasonal_patterns ts = Inr ?entries"
    using calculate_seasonal_patterns_closed[OF assms(1,2)] by (simp add: observed_months_def)
  have m: "map month_num ?entries = observed_months ts"
    by (simp add: o_def seasonal_entry_index(2)[OF assms(1,3)])
  have o: "\<forall>m. m \<in> set (observed_months ts) \<longleftrightarrow> (\<exists>t \<in> set ts. month_of_point t = m)"
    using observed_iff[OF assms(2)] by blast
  have i: "map se_index ?entries
             = map (\<lambda>m. Fin (py_round 3 (seasonal_raw ts m))) (observed_months ts)"
    by (simp add: o_def seasonal_entry_index(1)[OF assms(1,3)])
  have p: "\<forall>m \<in> set (observed_months ts).
        0 < seasonal_raw ts m \<and> 0 \<le> py_round 3 (seasonal_raw ts m) \<and>
        (0 < py_round 3 (seasonal_raw ts m) \<longleftrightarrow> 1 / 2000 < seasonal_raw ts m)"
  proof
    fix m
    assume mo: "m \<in> set (observed_months ts)"
    have r: "0 < seasonal_raw ts m" by (rule seasonal_raw_pos[OF assms(1,3) mo])
    then have "0 \<le> py_round 3 (seasonal_raw ts m)" by (intro py_round_nonneg) simp
    moreover have "0 < py_round 3 (seasonal_raw ts m) \<longleftrightarrow> 1 / 2000 < seasonal_raw ts m"
      by (simp add: py_round_pos_iff mult.commute)
    ultimately show "0 < seasonal_raw ts m \<and> 0 \<le> py_round 3 (seasonal_raw ts m) \<and>
        (0 < py_round 3 (seasonal_raw ts m) \<longleftrightarrow> 1 / 2000 < seasonal_raw ts m)"
      using r by blast
  qed
  have n: "0 < real (length ts)" using assms(1) by simp
  have e: "sum_list (map (\<lambda>m. real (length (month_points ts m)) * seasonal_raw ts m)
                 (observed_months ts)) / real (length ts) = 1"
    unfolding weighted_raw_sum[OF assms] using n by simp
  note w = weighted_rounded_sum[OF assms]
  show ?thesis using c m o i p e w by (intro exI[of _ ?entries] conjI)
qed

theorem seasonal_indices_weighted_mean_witness:
  "\<exists>entries.
     calculate_seasonal_patterns lopsided_series = Inr entries \<and>
     map month_num entries = [1, 2] \<and>
     0 \<le> py_round 3 (seasonal_raw lopsided_series 1) \<and>
     \<bar>sum_list (map (\<lambda>m. real (length (month_points lopsided_series m))
                          * py_round 3 (seasonal_raw lopsided_series m)) [1, 2])
        / real (length lopsided_series) - 1\<bar> \<le> 1 / 2000"
proof -
  have ne: "lopsided_series \<noteq> []" by (simp add: lopsided_series_def)
  from seasonal_indices_weighted_mean[OF ne lopsided_parses lopsided_positive]
  obtain entries where
    c: "calculate_seasonal_patterns lopsided_series = Inr entries" and
    m: "map month_num entries = observed_months lopsided_series" and
    p: "\<forall>m \<in> set (observed_months lopsided_series).
        0 < seasonal_raw lopsided_series m \<and> 0 \<le> py_round 3 (seasonal_raw lopsided_series m) \<and>
        (0 < py_round 3 (seasonal_raw lopsided_series m)
           \<longleftrightarrow> 1 / 2000 < seasonal_raw lopsided_series m)" and
    w: "\<bar>sum_list (map (\<lambda>m. real (length (month_points lopsided_series m))
                          * py_round 3 (seasonal_raw lopsided_series m))
                 (observed_months lopsided_series))
        / real (length lopsided_series) - 1\<bar> \<le> 1 / 2000"
    by blast
  have z: "0 \<le> py_round 3 (seasonal_raw lopsided_series 1)"
    using p unfolding lopsided_observed by simp
  have m': "map month_num entries = [1, 2]" using m unfolding lopsided_observed .
  have w': "\<bar>sum_list (map (\<lambda>m. real (length (month_points lopsided_series m))
                          * py_round 3 (seasonal_raw lopsided_series m)) [1, 2])
        / real (length lopsided_series) - 1\<bar> \<le> 1 / 2000"
    using w unfolding lopsided_observed .
  show ?thesis by (rule exI[of _ entries], intro conjI) (rule c m' z w')+
qed

text \<open>
  An emitted index can be zero: for one update in January and ten thousand in February
  the ratio of January is \<open>2/10001\<close>, which rounds to 0.
\<close>

theorem seasonal_index_rounds_to_zero:
  "lopsided_series \<noteq> [] \<and> list_all (\<lambda>t. 0 < tp_val t) lopsided_series \<and>
   calculate_seasonal_patterns lopsided_series =
     Inr [\<lparr>se_month = ''Jan'', month_num = 1, se_index = Fin 0\<rparr>,
          \<lparr>se_month = ''Feb'', month_num = 2, se_index = Fin 2\<rparr>] \<and>
   \<not> np_greater (se_index \<lparr>se_month = ''Jan'', month_num = 1, se_index = Fin 0\<rparr>) 0"
  using lopsided_patterns by (simp add: lopsided_series_def)

section \<open>Zero baselines in the growth rates\<close>

text \<open>
  The growth rate of \<^const>\<open>get_update_analytics\<close> divides two Python integers, and the
  year-over-year growth of \<^const>\<open>get_trends\<close> divides two numpy floats. Neither division is
  guarded against a zero divisor; the only guard of the growth rate is on the emptiness of
  the series, and it is evaluated after the mean of the series has been converted to an
  integer.
\<close>

lemma zero_baseline_totals:
  "monthly_totals
     [\<lparr>ur_month = (2024, 1), update_type = ''Address'', ur_count = 0\<rparr>,
      \<lparr>ur_month = (2024, 1), update_type = ''Mobile'', ur_count = 0\<rparr>,
      \<lparr>ur_month = (2024, 2), update_type = ''Address'', ur_count = 3800000\<rparr>,
      \<lparr>ur_month = (2024, 2), update_type = ''Mobile'', ur_count = 2800000\<rparr>]
   = [((2024, 1), 0), ((2024, 2), 6600000)]"
  by (simp add: monthly_totals_def sorted_list_of_set_sort_remdups less_eq_prod_def)

lemma stamps_2024: "stamp_Y_m (2024, Suc 0) = ''2024-01''" "stamp_Y_m (2024, 2) = ''2024-02''"
  "stamp_b_Y (2024, Suc 0) = ''Jan 2024''" "stamp_b_Y (2024, 2) = ''Feb 2024''"
  by (simp_all add: stamp_Y_m_def stamp_b_Y_def zpad_def dec_str.simps digit_char_def
      month_abbr_def)

lemma zero_baseline_series:
  "get_update_timeseries zero_baseline_repo 24 =
     [\<lparr>tp_period = ''2024-01'', tp_month_name = ''Jan 2024'', tp_val = 0,
       tp_cumulative = None, tp_yoy_growth = None\<rparr>,
      \<lparr>tp_period = ''2024-02'', tp_month_name = ''Feb 2024'', tp_val = 6600000,
       tp_cumulative = None, tp_yoy_growth = None\<rparr>]"
proof -
  have ud: "update_data zero_baseline_repo =
        Some [\<lparr>ur_month = (2024, 1), update_type = ''Address'', ur_count = 0\<rparr>,
              \<lparr>ur_month = (2024, 1), update_type = ''Mobile'', ur_count = 0\<rparr>,
              \<lparr>ur_month = (2024, 2), update_type = ''Address'', ur_count = 3800000\<rparr>,
              \<lparr>ur_month = (2024, 2), update_type = ''Mobile'', ur_count = 2800000\<rparr>]"
    by (simp add: zero_baseline_repo_def)
  show ?thesis
    unfolding get_update_timeseries_def ud option.case zero_baseline_totals
    by (simp add: tail_def stamps_2024)
qed

lemma zero_baseline_seasonal:
  "\<exists>entries. calculate_seasonal_patterns (get_update_timeseries zero_baseline_repo 24) = Inr entries"
proof -
  have "get_update_timeseries zero_baseline_repo 24 \<noteq> []" by (simp add: zero_baseline_series)
  moreover have "list_all parses (get_update_timeseries zero_baseline_repo 24)"
    by (simp add: zero_baseline_series parses_def strptime_jan_feb)
  ultimately show ?thesis using calculate_seasonal_patterns_closed by blast
qed

lemma zero_baseline_enrolments:
  "map enrolments (example_rows 1200000000 0 (replicate 12 0 @ replicate 12 12000000))
     = replicate 12 0 @ replicate 12 12000000"
  by (rule example_rows_vals)

text \<open>
  Claim C4. The growth rates are claimed to fall back to a fixed default whenever the divisor
  is zero, so that \<^const>\<open>get_trends\<close> and \<^const>\<open>get_update_analytics\<close> return on every
  repository. On \<^const>\<open>zero_baseline_repo\<close> the update series is non-empty and starts at 0, and
  \<^const>\<open>get_update_analytics\<close> raises \<^const>\<open>ZeroDivisionError\<close>; on a repository with no
  update frame the series is empty and it raises \<^const>\<open>ValueError\<close> before the guard of the
  growth rate is reached; and \<^const>\<open>get_trends\<close> reports an infinite growth for the zero
  enrolment baseline, not a default.
\<close>

theorem zero_baseline_not_guarded:
  "tp_val (hd (get_update_timeseries zero_baseline_repo 24)) = 0 \<and>
   get_update_analytics rng zero_baseline_repo = Inl ZeroDivisionError \<and>
   get_update_timeseries (census_repo 0.11 0.12 0.15) 24 = [] \<and>
   get_update_analytics rng (census_repo 0.11 0.12 0.15) = Inl ValueError \<and>
   (\<exists>t. get_trends zero_baseline_repo = Inr (Some t) \<and> enrolment_growth_yoy t = PosInf)"
proof -
  have a: "tp_val (hd (get_update_timeseries zero_baseline_repo 24)) = 0"
    by (simp add: zero_baseline_series)
  obtain entries where
    e: "calculate_seasonal_patterns (get_update_timeseries zero_baseline_repo 24) = Inr entries"
    using zero_baseline_seasonal by blast
  have ne: "get_update_timeseries zero_baseline_repo 24 \<noteq> []" by (simp add: zero_baseline_series)
  have b: "get_update_analytics rng zero_baseline_repo = Inl ZeroDivisionError"
    unfolding get_update_analytics_def Let_def e using ne a by simp
  have c: "get_update_timeseries (census_repo 0.11 0.12 0.15) 24 = []"
    by (simp add: get_update_timeseries_def census_repo_def)
  have d: "get_update_analytics rng (census_repo 0.11 0.12 0.15) = Inl ValueError"
    unfolding get_update_analytics_def Let_def c
    by (simp add: calculate_seasonal_patterns_def)
  let ?df = "example_rows 1200000000 0 (replicate 12 0 @ replicate 12 12000000)"
  have len: "length ?df = 24" by (simp add: length_example_rows)
  have t24: "tail 24 ?df = ?df" by (simp add: tail_def len)
  have ne2: "?df \<noteq> []" using len by auto
  have rec: "map (\<lambda>r. real_of_int (enrolments r)) (tail 12 ?df) = replicate 12 12000000"
  proof -
    have "map (\<lambda>r. real_of_int (enrolments r)) (tail 12 ?df)
          = map real_of_int (drop 12 (map enrolments ?df))"
      by (simp add: tail_def len drop_map o_def)
    then show ?thesis unfolding zero_baseline_enrolments by simp
  qed
  have prv: "map (\<lambda>r. real_of_int (enrolments r)) (take 12 ?df) = replicate 12 0"
  proof -
    have "map (\<lambda>r. real_of_int (enrolments r)) (take 12 ?df)
          = map real_of_int (take 12 (map enrolments ?df))"
      by (simp add: take_map o_def)
    then show ?thesis unfolding zero_baseline_enrolments by simp
  qed
  have m1: "np_mean (replicate 12 12000000) = 12000000" by (simp add: np_mean_def sum_list_replicate)
  have m0: "np_mean (replicate 12 0) = 0" by (simp add: np_mean_def sum_list_replicate)
  have ed: "enrolment_data zero_baseline_repo = Some ?df" by (simp add: zero_baseline_repo_def)
  have g: "\<exists>t. get_trends zero_baseline_repo = Inr (Some t) \<and> enrolment_growth_yoy t = PosInf"
    unfolding get_trends_def ed option.case Let_def t24 rec prv m1 m0
    using ne2 by (simp add: np_true_divide_def)
  show ?thesis using a b c d g by (intro conjI)
qed

end
